theory Spec2Isabelle
  imports Complex_Main "HOL-Library.Char_ord" "HOL-Library.List_Lexorder" "HOL-Library.Product_Lexorder"
begin

section \<open>Python values and exceptions\<close>

text \<open>
  A raised exception is the left summand of a result, the returned value the right one.
  A dict with string keys is a map; its values are \<open>None\<close>, integers, floats (idealised
  as reals: no NaN, no rounding) and strings.
\<close>

datatype py_error =
    KeyError | ValueError | TypeError | IndexError | AttributeError
  | UnknownTimeZoneError | ParserError

datatype pyval = PyNone | PyInt int | PyFloat real | PyStr string

type_synonym pydict = "string \<rightharpoonup> pyval"

text \<open>The builtins \<open>max\<close> and \<open>min\<close> on an iterable: the first extreme item is kept,
  and an empty iterable raises \<open>ValueError\<close>.\<close>

fun py_max :: "'a::linorder list \<Rightarrow> py_error + 'a" where
  "py_max [] = Inl ValueError"
| "py_max (x # xs) = Inr (fold (\<lambda>item m. if item > m then item else m) xs x)"

fun py_min :: "'a::linorder list \<Rightarrow> py_error + 'a" where
  "py_min [] = Inl ValueError"
| "py_min (x # xs) = Inr (fold (\<lambda>item m. if item < m then item else m) xs x)"

section \<open>The home selector\<close>

text \<open>A row of the table \<open>create_cluster_aggregates\<close> returns, and the three columns
  \<open>determine_home_cluster\<close> reads by name.\<close>

record cluster_aggregate =
  cluster_id :: int
  centroid_lon :: real
  centroid_lat :: real
  time_range :: real
  max_dist_from_centroid :: real
  count :: nat

datatype column = Count | Max_dist_from_centroid | Time_range

fun col :: "column \<Rightarrow> cluster_aggregate \<Rightarrow> real" where
  "col Count c = real (count c)"
| "col Max_dist_from_centroid c = max_dist_from_centroid c"
| "col Time_range c = time_range c"

text \<open>\<open>cluster_aggregates[column].value_counts().loc[value]\<close>: how often the value
  occurs in the column, \<open>KeyError\<close> when it does not.\<close>

definition value_counts_loc :: "'a list \<Rightarrow> 'a \<Rightarrow> py_error + nat" where
  "value_counts_loc xs v = (if v \<in> set xs then Inr (count_list xs v) else Inl KeyError)"

text \<open>A function that falls off its end returns \<open>None\<close>; \<open>.values[0]\<close> raises
  \<open>IndexError\<close> on an empty selection.\<close>

definition unique_cluster_id ::
  "cluster_aggregate list \<Rightarrow> column \<Rightarrow> (real list \<Rightarrow> py_error + real) \<Rightarrow> py_error + int option" where
  "unique_cluster_id cluster_aggregates column measure_fn =
     (case measure_fn (map (col column) cluster_aggregates) of
        Inl e \<Rightarrow> Inl e
      | Inr v \<Rightarrow>
          (case value_counts_loc (map (col column) cluster_aggregates) v of
             Inl e \<Rightarrow> Inl e
           | Inr n \<Rightarrow>
               if n = 1 then
                 (case filter (\<lambda>c. col column c = v) cluster_aggregates of
                    [] \<Rightarrow> Inl IndexError
                  | c # _ \<Rightarrow> Inr (Some (cluster_id c)))
               else Inr None))"

text \<open>The \<open>for\<close> loop of \<open>determine_home_cluster\<close> over its list of
  (column, measure, reason).\<close>

fun home_cluster_loop ::
  "cluster_aggregate list \<Rightarrow> (column \<times> (real list \<Rightarrow> py_error + real) \<times> string) list
     \<Rightarrow> py_error + (int option \<times> string option)" where
  "home_cluster_loop cluster_aggregates [] = Inr (None, None)"
| "home_cluster_loop cluster_aggregates ((column, measure_fn, reason) # rules) =
     (case unique_cluster_id cluster_aggregates column measure_fn of
        Inl e \<Rightarrow> Inl e
      | Inr (Some home_cluster_id) \<Rightarrow> Inr (Some home_cluster_id, Some reason)
      | Inr None \<Rightarrow> home_cluster_loop cluster_aggregates rules)"

definition determine_home_cluster ::
  "cluster_aggregate list \<Rightarrow> py_error + (int option \<times> string option)" where
  "determine_home_cluster cluster_aggregates =
     home_cluster_loop cluster_aggregates
       [(Count, py_max, ''only one max cluster''),
        (Max_dist_from_centroid, py_min, ''cluster with minimum distance''),
        (Time_range, py_max, ''cluster with maximum time range'')]"

section \<open>Tweets and datetimes\<close>

text \<open>
  A row of the \<open>geotweets\<close> table. The columns \<open>dbscan\<close> requires (\<open>created_at\<close>, the two
  coordinates, \<open>user_id\<close>) are taken non-null; \<open>user_name\<close> may be NULL. Floating-point
  columns are idealised as reals (no NaN, no rounding).
\<close>

record tweet =
  created_at :: string
  user_name :: "string option"
  user_id :: int
  coordinates_coordinates_0 :: real
  coordinates_coordinates_1 :: real

abbreviation LON_COLUMN :: "'a tweet_scheme \<Rightarrow> real" where
  "LON_COLUMN \<equiv> coordinates_coordinates_0"

abbreviation LAT_COLUMN :: "'a tweet_scheme \<Rightarrow> real" where
  "LAT_COLUMN \<equiv> coordinates_coordinates_1"

text \<open>
  A Python \<open>datetime\<close> at whole seconds: the wall-clock reading as seconds since
  1970-01-01T00:00:00 on that same wall clock, and the UTC offset in seconds (\<open>None\<close> for a
  naive datetime). 1970-01-01 was a Thursday, and \<open>weekday()\<close> counts Monday as 0.
\<close>

record datetime =
  wall_seconds :: int
  utcoffset :: "int option"

definition weekday :: "datetime \<Rightarrow> nat" where
  "weekday d = nat ((wall_seconds d div 86400 + 3) mod 7)"

definition hour :: "datetime \<Rightarrow> nat" where
  "hour d = nat ((wall_seconds d mod 86400) div 3600)"

definition instant :: "datetime \<Rightarrow> int" where
  "instant d = (case utcoffset d of None \<Rightarrow> wall_seconds d | Some off \<Rightarrow> wall_seconds d - off)"

record ltweet = tweet +
  dt :: datetime

definition with_dt :: "tweet \<Rightarrow> datetime \<Rightarrow> ltweet" where
  "with_dt t d = tweet.extend t \<lparr>dt = d\<rparr>"

section \<open>External libraries\<close>

text \<open>One row of \<open>dbscan_model["cluster_id"].to_dataframe()\<close>: columns \<open>row_id\<close>,
  \<open>cluster_id\<close> (null for noise) and \<open>type\<close>.\<close>

record dbscan_row =
  row_id :: nat
  row_cluster_id :: "int option"
  row_type :: string

text \<open>
  The library calls the module makes are parameters of the model: \<open>dateutil.parser.parse\<close>,
  \<open>TimezoneFinder.timezone_at\<close>, \<open>pytz.timezone\<close>, \<open>datetime.astimezone\<close> and
  \<open>turicreate.dbscan.create\<close> (with the fixed \<open>EPS\<close>, \<open>MIN_POINTS\<close> and Euclidean
  distance). Each may raise.
\<close>

record 'tz externals =
  dateutil_parse :: "string \<Rightarrow> py_error + datetime"
  timezone_at :: "real \<Rightarrow> real \<Rightarrow> py_error + string option"
  pytz_timezone :: "string option \<Rightarrow> py_error + 'tz"
  astimezone :: "datetime \<Rightarrow> 'tz \<Rightarrow> py_error + datetime"
  turicreate_dbscan_create :: "(real \<times> real) list \<Rightarrow> py_error + dbscan_row list"

section \<open>merge\_dicts\<close>

text \<open>\<open>dicts[0].copy()\<close>, then \<open>update\<close> with each further dict in turn: on a shared key
  the later dict's value replaces the earlier one.\<close>

fun merge_dicts :: "pydict list \<Rightarrow> py_error + pydict" where
  "merge_dicts [] = Inl IndexError"
| "merge_dicts (d # dicts) = Inr (fold (\<lambda>dict' new_dict. new_dict ++ dict') dicts d)"

section \<open>DatetimeLocalizer\<close>

text \<open>
  The cache \<open>self.timezones\<close> maps a zone name, possibly \<open>None\<close>, to a zone object or to
  \<open>None\<close>. \<open>lookup_tz\<close> catches \<open>AttributeError\<close> only and lets every other exception
  through; \<open>get_localized_dt\<close> parses the timestamp outside its \<open>try\<close> and catches
  everything inside it. Both return the cache they leave behind. (The message
  \<open>lookup_tz\<close> prints is left out.)
\<close>

type_synonym 'tz timezones = "string option \<rightharpoonup> 'tz option"

definition lookup_tz ::
  "'tz externals \<Rightarrow> 'tz timezones \<Rightarrow> real \<Rightarrow> real \<Rightarrow> (py_error + 'tz option) \<times> 'tz timezones" where
  "lookup_tz ext timezones lon lat =
     (case timezone_at ext lon lat of
        Inl e \<Rightarrow> (Inl e, timezones)
      | Inr tz_name \<Rightarrow>
          (case timezones tz_name of
             Some tz \<Rightarrow> (Inr tz, timezones)
           | None \<Rightarrow>
               (case pytz_timezone ext tz_name of
                  Inr tz \<Rightarrow> (Inr (Some tz), timezones(tz_name \<mapsto> Some tz))
                | Inl AttributeError \<Rightarrow> (Inr None, timezones(tz_name \<mapsto> None))
                | Inl e \<Rightarrow> (Inl e, timezones))))"

definition get_localized_dt ::
  "'tz externals \<Rightarrow> 'tz timezones \<Rightarrow> tweet \<Rightarrow> (py_error + datetime) \<times> 'tz timezones" where
  "get_localized_dt ext timezones tweet =
     (case dateutil_parse ext (created_at tweet) of
        Inl e \<Rightarrow> (Inl e, timezones)
      | Inr d \<Rightarrow>
          (case lookup_tz ext timezones (LON_COLUMN tweet) (LAT_COLUMN tweet) of
             (Inl e, timezones') \<Rightarrow> (Inr d, timezones')
           | (Inr None, timezones') \<Rightarrow> (Inr d, timezones')
           | (Inr (Some tz), timezones') \<Rightarrow>
               (case astimezone ext d tz of
                  Inl e \<Rightarrow> (Inr d, timezones')
                | Inr d' \<Rightarrow> (Inr d', timezones'))))"

text \<open>\<open>df.apply(localizer.get_localized_dt, axis = 1)\<close>: row by row, threading the cache;
  the first exception aborts.\<close>

fun localize_datetimes ::
  "'tz externals \<Rightarrow> 'tz timezones \<Rightarrow> tweet list \<Rightarrow> py_error + ltweet list" where
  "localize_datetimes ext timezones [] = Inr []"
| "localize_datetimes ext timezones (t # ts) =
     (case get_localized_dt ext timezones t of
        (Inl e, _) \<Rightarrow> Inl e
      | (Inr d, timezones') \<Rightarrow>
          (case localize_datetimes ext timezones' ts of
             Inl e \<Rightarrow> Inl e
           | Inr rows \<Rightarrow> Inr (with_dt t d # rows)))"

section \<open>Haversine\<close>

definition RADIUS_OF_EARTH :: real where
  "RADIUS_OF_EARTH = 6372800"

text \<open>\<open>numpy.radians\<close>, and the function as the source has it, over the reals.\<close>

definition radians :: "real \<Rightarrow> real" where
  "radians x = x * pi / 180"

definition haversine :: "real \<Rightarrow> real \<Rightarrow> real \<Rightarrow> real \<Rightarrow> real" where
  "haversine lat1 lon1 lat2 lon2 =
     (let dLat = radians (lat2 - lat1);
          dLon = radians (lon2 - lon1);
          lat1' = radians lat1;
          lat2' = radians lat2;
          a = (sin (dLat / 2))\<^sup>2 + cos lat1' * cos lat2' * (sin (dLon / 2))\<^sup>2;
          c = 2 * arcsin (sqrt a)
      in RADIUS_OF_EARTH * c)"


section \<open>Preprocessing\<close>

definition BURST_TWEETS_GROUPBY_COLUMNS :: "tweet \<Rightarrow> string \<times> real \<times> real" where
  "BURST_TWEETS_GROUPBY_COLUMNS t = (created_at t, LON_COLUMN t, LAT_COLUMN t)"

fun first_non_null :: "'a option list \<Rightarrow> 'a option" where
  "first_non_null [] = None"
| "first_non_null (None # xs) = first_non_null xs"
| "first_non_null (Some x # xs) = Some x"

text \<open>
  \<open>df.groupby(BURST_TWEETS_GROUPBY_COLUMNS).first().reset_index()\<close>: one row per distinct
  key, the keys in ascending order (\<open>groupby\<close> sorts them), every other column holding the
  first non-null value of its group.
\<close>

definition groupby_first :: "tweet list \<Rightarrow> tweet list" where
  "groupby_first df =
     concat (map
       (\<lambda>key. case filter (\<lambda>t. BURST_TWEETS_GROUPBY_COLUMNS t = key) df of
                 [] \<Rightarrow> []
               | t # ts \<Rightarrow> [t\<lparr>user_name := first_non_null (map user_name (t # ts))\<rparr>])
       (sort (remdups (map BURST_TWEETS_GROUPBY_COLUMNS df))))"

definition n_burst_tweets :: "tweet list \<Rightarrow> int" where
  "n_burst_tweets df = (let n_orig = int (length df); n_deduplicated = int (length (groupby_first df))
                        in n_orig - n_deduplicated)"

text \<open>The two successive subsets: \<open>dt.weekday() <= 3\<close>, then \<open>dt.hour >= 9\<close>.\<close>

definition home_period :: "ltweet list \<Rightarrow> ltweet list" where
  "home_period df = filter (\<lambda>r. hour (dt r) \<ge> 9) (filter (\<lambda>r. weekday (dt r) \<le> 3) df)"

section \<open>Cluster aggregates\<close>

text \<open>A row of \<open>df_clusters\<close> as \<open>create_cluster_aggregates\<close> receives it: a localized
  tweet with the integer cluster id of a core point.\<close>

record core_tweet = ltweet +
  core_cluster_id :: int

fun collect :: "(py_error + 'a) list \<Rightarrow> py_error + 'a list" where
  "collect [] = Inr []"
| "collect (Inl e # xs) = Inl e"
| "collect (Inr x # xs) = (case collect xs of Inl e \<Rightarrow> Inl e | Inr ys \<Rightarrow> Inr (x # ys))"

text \<open>\<open>Series.unique()\<close>, in order of first appearance, and \<open>DataFrame.mean()\<close> of a
  column.\<close>

definition unique :: "'a list \<Rightarrow> 'a list" where
  "unique xs = rev (remdups (rev xs))"

definition mean :: "real list \<Rightarrow> real" where
  "mean xs = sum_list xs / real (length xs)"

text \<open>\<open>(this_cluster["dt"].max() - this_cluster["dt"].min()).total_seconds()\<close>; naive and
  aware datetimes do not compare.\<close>

definition total_seconds_range :: "datetime list \<Rightarrow> py_error + real" where
  "total_seconds_range ds =
     (if (\<forall>d \<in> set ds. utcoffset d = None) \<or> (\<forall>d \<in> set ds. utcoffset d \<noteq> None) then
        (case py_max (map instant ds) of
           Inl e \<Rightarrow> Inl e
         | Inr hi \<Rightarrow> (case py_min (map instant ds) of
                        Inl e \<Rightarrow> Inl e
                      | Inr lo \<Rightarrow> Inr (real_of_int (hi - lo))))
      else Inl TypeError)"

text \<open>The body of the loop over the cluster ids, with the count that the merge with
  \<open>value_counts()\<close> adds. The centroid goes to \<open>haversine\<close> as written in the source:
  \<open>cluster_centroid[0]\<close> (the mean longitude) first.\<close>

definition cluster_aggregate_of :: "core_tweet list \<Rightarrow> int \<Rightarrow> py_error + cluster_aggregate" where
  "cluster_aggregate_of df_clusters cid =
     (let this_cluster = filter (\<lambda>r. core_cluster_id r = cid) df_clusters;
          cluster_centroid_0 = mean (map LON_COLUMN this_cluster);
          cluster_centroid_1 = mean (map LAT_COLUMN this_cluster)
      in case total_seconds_range (map dt this_cluster) of
           Inl e \<Rightarrow> Inl e
         | Inr tr \<Rightarrow>
             (case py_max (map (\<lambda>r. haversine cluster_centroid_0 cluster_centroid_1
                                        (LON_COLUMN r) (LAT_COLUMN r)) this_cluster) of
                Inl e \<Rightarrow> Inl e
              | Inr md \<Rightarrow>
                  Inr \<lparr>cluster_id = cid,
                       centroid_lon = cluster_centroid_0,
                       centroid_lat = cluster_centroid_1,
                       time_range = tr,
                       max_dist_from_centroid = md,
                       count = count_list (map core_cluster_id df_clusters) cid\<rparr>))"

text \<open>With no row at all, \<open>pandas.DataFrame([])\<close> has no \<open>cluster_id\<close> column and the
  merge raises \<open>KeyError\<close>.\<close>

definition create_cluster_aggregates :: "core_tweet list \<Rightarrow> py_error + cluster_aggregate list" where
  "create_cluster_aggregates df_clusters =
     (case collect (map (cluster_aggregate_of df_clusters)
                        (unique (map core_cluster_id df_clusters))) of
        Inl e \<Rightarrow> Inl e
      | Inr clusters \<Rightarrow>
          if clusters = [] then Inl KeyError
          else Inr (sort_key cluster_id clusters))"


section \<open>dbscan\<close>

definition DBSCAN_CLUSTER_TYPES :: "string list" where
  "DBSCAN_CLUSTER_TYPES = [''core'', ''boundary'', ''noise'']"

definition n_dbscan_key :: "string \<Rightarrow> string" where
  "n_dbscan_key cluster_type = ''n_dbscan_'' @ cluster_type @ ''_tweets''"

text \<open>The effects of a run that later code or a reader can observe: the call of the
  clusterer and the two per-user CSV files. (Creating the two output directories and
  verbose printing are left out.)\<close>

datatype event =
    Dbscan_create "(real \<times> real) list"
  | Clusters_csv int
  | Aggregates_csv int

definition initial_debug_info :: pydict where
  "initial_debug_info =
     [''clustering_attempted'' \<mapsto> PyInt 0]
       ++ map_of (map (\<lambda>cluster_type. (n_dbscan_key cluster_type, PyNone)) DBSCAN_CLUSTER_TYPES)"

definition home_decision :: "pyval \<Rightarrow> pyval \<Rightarrow> pyval \<Rightarrow> pyval \<Rightarrow> pyval \<Rightarrow> pydict" where
  "home_decision hid reason clon clat cnt =
     [''home_cluster_id'' \<mapsto> hid,
      ''home_cluster_reason'' \<mapsto> reason,
      ''home_cluster_centroid_lon'' \<mapsto> clon,
      ''home_cluster_centroid_lat'' \<mapsto> clat,
      ''home_cluster_count'' \<mapsto> cnt]"

text \<open>Lines 227 to 233: the three type counters, zero for a type that does not occur.\<close>

definition store_type_counts :: "dbscan_row list \<Rightarrow> pydict \<Rightarrow> pydict" where
  "store_type_counts results dbscan_debug_info =
     fold (\<lambda>cluster_type info.
             info(n_dbscan_key cluster_type \<mapsto>
                    PyInt (if cluster_type \<in> set (map row_type results)
                           then int (count_list (map row_type results) cluster_type)
                           else 0)))
          DBSCAN_CLUSTER_TYPES dbscan_debug_info"

text \<open>\<open>pandas.merge(df, results, left_index = True, right_on = "row_id")\<close>, an inner join
  in the order of the left index.\<close>

definition merge_on_row_id :: "ltweet list \<Rightarrow> dbscan_row list \<Rightarrow> (ltweet \<times> dbscan_row) list" where
  "merge_on_row_id df results =
     concat (map (\<lambda>i. map (\<lambda>r. (df ! i, r)) (filter (\<lambda>r. row_id r = i) results))
                 [0 ..< length df])"

text \<open>Keeping the core points and \<open>astype(int)\<close> on their cluster ids, which raises on a
  null id.\<close>

definition core_points :: "(ltweet \<times> dbscan_row) list \<Rightarrow> py_error + core_tweet list" where
  "core_points df_clusters =
     collect (map (\<lambda>(t, r). case row_cluster_id r of
                               None \<Rightarrow> Inl ValueError
                             | Some c \<Rightarrow> Inr (ltweet.extend t \<lparr>core_cluster_id = c\<rparr>))
                  (filter (\<lambda>(t, r). row_type r = ''core'') df_clusters))"

text \<open>Lines 272 to 289: the decision, and the winner's centroid and count copied from its
  row of the aggregate table.\<close>

definition decide_home :: "cluster_aggregate list \<Rightarrow> py_error + pydict" where
  "decide_home cluster_aggregates =
     (case determine_home_cluster cluster_aggregates of
        Inl e \<Rightarrow> Inl e
      | Inr (None, reason) \<Rightarrow>
          Inr (home_decision PyNone (case reason of None \<Rightarrow> PyNone | Some s \<Rightarrow> PyStr s)
                 PyNone PyNone PyNone)
      | Inr (Some home_cluster_id, reason) \<Rightarrow>
          (case filter (\<lambda>c. cluster_id c = home_cluster_id) cluster_aggregates of
             [] \<Rightarrow> Inl IndexError
           | home_cluster # _ \<Rightarrow>
               Inr (home_decision (PyInt home_cluster_id)
                      (case reason of None \<Rightarrow> PyNone | Some s \<Rightarrow> PyStr s)
                      (PyFloat (centroid_lon home_cluster))
                      (PyFloat (centroid_lat home_cluster))
                      (PyInt (int (count home_cluster))))))"

text \<open>Lines 210 to 289, entered with \<open>clustering_attempted\<close> already set to 1.\<close>

definition dbscan_cluster ::
  "'tz externals \<Rightarrow> int \<Rightarrow> pydict \<Rightarrow> ltweet list \<Rightarrow> py_error + (pydict \<times> event list)" where
  "dbscan_cluster ext uid dbscan_debug_info df =
     (let sf = map (\<lambda>r. (LON_COLUMN r, LAT_COLUMN r)) df in
      case turicreate_dbscan_create ext sf of
        Inl e \<Rightarrow> Inl e
      | Inr results \<Rightarrow>
          let dbscan_debug_info = store_type_counts results dbscan_debug_info in
          if list_all (\<lambda>r. row_cluster_id r = None) results then
            (case merge_dicts [dbscan_debug_info,
                               home_decision (PyInt (- 1)) (PyStr ''no clusters'')
                                 PyNone PyNone PyNone] of
               Inl e \<Rightarrow> Inl e
             | Inr d \<Rightarrow> Inr (d, [Dbscan_create sf]))
          else
            (case core_points (merge_on_row_id df results) of
               Inl e \<Rightarrow> Inl e
             | Inr df_clusters \<Rightarrow>
                 (case create_cluster_aggregates df_clusters of
                    Inl e \<Rightarrow> Inl e
                  | Inr cluster_aggregates \<Rightarrow>
                      (case decide_home cluster_aggregates of
                         Inl e \<Rightarrow> Inl e
                       | Inr decision \<Rightarrow>
                           (case merge_dicts [dbscan_debug_info, decision] of
                              Inl e \<Rightarrow> Inl e
                            | Inr d \<Rightarrow>
                                Inr (d, [Dbscan_create sf, Clusters_csv uid,
                                         Aggregates_csv uid]))))))"

text \<open>
  Lines 156 to 208. \<open>df.loc[0]\<close> raises \<open>KeyError\<close> on an empty frame; the localizer
  starts with an empty cache. A call that returns gives the dict and the effects it had,
  in order; a call that raises gives the exception.
\<close>

definition dbscan ::
  "'tz externals \<Rightarrow> tweet list \<Rightarrow> py_error + (pydict \<times> event list)" where
  "dbscan ext tweets_df =
     (case tweets_df of
        [] \<Rightarrow> Inl KeyError
      | row0 # _ \<Rightarrow>
          let uid = user_id row0;
              dbscan_debug_info = initial_debug_info;
              dbscan_debug_info = dbscan_debug_info(''n_burst_tweets'' \<mapsto> PyInt (n_burst_tweets tweets_df))
          in case localize_datetimes ext Map.empty (groupby_first tweets_df) of
               Inl e \<Rightarrow> Inl e
             | Inr localized \<Rightarrow>
                 let df = home_period localized;
                     dbscan_debug_info =
                       dbscan_debug_info(''n_home_period_tweets'' \<mapsto> PyInt (int (length df)))
                 in if length df = 0 then
                      (case merge_dicts [dbscan_debug_info,
                                         home_decision (PyInt (- 1))
                                           (PyStr ''no tweets in desired time range'')
                                           PyNone PyNone PyNone] of
                         Inl e \<Rightarrow> Inl e
                       | Inr d \<Rightarrow> Inr (d, []))
                    else
                      dbscan_cluster ext uid
                        (dbscan_debug_info(''clustering_attempted'' \<mapsto> PyInt 1)) df)"

text \<open>Reading a call's outcome: the value the returned dict holds under a key (nothing
  when the call raised), and the effects of a call that returned.\<close>

definition returned :: "py_error + (pydict \<times> event list) \<Rightarrow> string \<Rightarrow> pyval option" where
  "returned outcome key = (case outcome of Inl e \<Rightarrow> None | Inr (d, ev) \<Rightarrow> d key)"

definition effects :: "py_error + (pydict \<times> event list) \<Rightarrow> event list option" where
  "effects outcome = (case outcome of Inl e \<Rightarrow> None | Inr (d, ev) \<Rightarrow> Some ev)"

section \<open>run\_all\_measures\<close>

datatype return_value = Scalar pyval | Dict pydict

text \<open>A measure function: its \<open>__name__\<close> and what it computes from the user's frame.\<close>

record measure_function =
  measure_name :: string
  measure_call :: "tweet list \<Rightarrow> py_error + return_value"

text \<open>Lines 42 and 43: a return value that is not a dict is filed under the measure's
  name.\<close>

definition as_dict :: "measure_function \<Rightarrow> return_value \<Rightarrow> pydict" where
  "as_dict m return_value =
     (case return_value of
        Dict d \<Rightarrow> d
      | Scalar v \<Rightarrow> [measure_name m \<mapsto> v])"

fun run_measures_from :: "pydict \<Rightarrow> tweet list \<Rightarrow> measure_function list \<Rightarrow> py_error + pydict" where
  "run_measures_from results user_tweets_df [] = Inr results"
| "run_measures_from results user_tweets_df (m # measure_fns) =
     (case measure_call m user_tweets_df of
        Inl e \<Rightarrow> Inl e
      | Inr return_value \<Rightarrow>
          run_measures_from (results ++ as_dict m return_value) user_tweets_df measure_fns)"

definition run_all_measures :: "tweet list \<Rightarrow> measure_function list \<Rightarrow> py_error + pydict" where
  "run_all_measures user_tweets_df measure_fns = run_measures_from Map.empty user_tweets_df measure_fns"

definition dbscan_results :: "'tz externals \<Rightarrow> measure_function" where
  "dbscan_results ext =
     \<lparr>measure_name = ''dbscan_results'',
      measure_call = (\<lambda>tweets_df. case dbscan ext tweets_df of
                                     Inl e \<Rightarrow> Inl e
                                   | Inr (d, _) \<Rightarrow> Inr (Dict d))\<rparr>"


section \<open>The specification's wording, for comparison\<close>

text \<open>The home selector as the specification words it: a rule has a winner when exactly
  one cluster attains the extreme value of its column; the rules are tried in order, and
  the first winner decides.\<close>

definition attaining :: "(real \<Rightarrow> real \<Rightarrow> bool) \<Rightarrow> (cluster_aggregate \<Rightarrow> real) \<Rightarrow> cluster_aggregate list \<Rightarrow> cluster_aggregate list" where
  "attaining better f cas = filter (\<lambda>c. \<forall>c' \<in> set cas. better (f c) (f c')) cas"

definition spec_unique_winner :: "(real \<Rightarrow> real \<Rightarrow> bool) \<Rightarrow> (cluster_aggregate \<Rightarrow> real) \<Rightarrow> cluster_aggregate list \<Rightarrow> int option" where
  "spec_unique_winner better f cas =
     (case attaining better f cas of [c] \<Rightarrow> Some (cluster_id c) | _ \<Rightarrow> None)"

definition spec_home_selector :: "cluster_aggregate list \<Rightarrow> int option \<times> string option" where
  "spec_home_selector cas =
     (case spec_unique_winner (\<ge>) (\<lambda>c. real (count c)) cas of
        Some i \<Rightarrow> (Some i, Some ''only one max cluster'')
      | None \<Rightarrow>
     (case spec_unique_winner (\<le>) max_dist_from_centroid cas of
        Some i \<Rightarrow> (Some i, Some ''cluster with minimum distance'')
      | None \<Rightarrow>
     (case spec_unique_winner (\<ge>) time_range cas of
        Some i \<Rightarrow> (Some i, Some ''cluster with maximum time range'')
      | None \<Rightarrow> (None, None))))"

text \<open>Burst removal as the specification words it: the first record of every group of
  equal (\<open>created_at\<close>, longitude, latitude), in the original order.\<close>

fun keep_first_seen :: "(string \<times> real \<times> real) set \<Rightarrow> tweet list \<Rightarrow> tweet list" where
  "keep_first_seen seen [] = []"
| "keep_first_seen seen (t # ts) =
     (if BURST_TWEETS_GROUPBY_COLUMNS t \<in> seen then keep_first_seen seen ts
      else t # keep_first_seen (insert (BURST_TWEETS_GROUPBY_COLUMNS t) seen) ts)"

definition spec_remove_burst_tweets :: "tweet list \<Rightarrow> tweet list" where
  "spec_remove_burst_tweets df = keep_first_seen {} df"

text \<open>The great-circle distance in meters between two (longitude, latitude) points: the
  haversine formula with each coordinate in the role its parameter names.\<close>

definition great_circle_distance :: "real \<times> real \<Rightarrow> real \<times> real \<Rightarrow> real" where
  "great_circle_distance p q = haversine (snd p) (fst p) (snd q) (fst q)"

definition spec_max_dist_from_centroid :: "core_tweet list \<Rightarrow> real" where
  "spec_max_dist_from_centroid this_cluster =
     Max ((\<lambda>r. great_circle_distance
                  (mean (map LON_COLUMN this_cluster), mean (map LAT_COLUMN this_cluster))
                  (LON_COLUMN r, LAT_COLUMN r)) ` set this_cluster)"


section \<open>Example inputs\<close>

text \<open>Four core points of one cluster on latitude 42.36, two at longitude -71.0601 and
  two at -71.0599 (all within \<open>EPS\<close> of each other), tweeted on four evenings.\<close>

definition core_point :: "string \<Rightarrow> int \<Rightarrow> real \<Rightarrow> real \<Rightarrow> int \<Rightarrow> core_tweet" where
  "core_point created wall x y cid =
     \<lparr>created_at = created, user_name = Some ''a'', user_id = 7,
      coordinates_coordinates_0 = x, coordinates_coordinates_1 = y,
      dt = \<lparr>wall_seconds = wall, utcoffset = Some 0\<rparr>,
      core_cluster_id = cid\<rparr>"

definition example_cluster :: "core_tweet list" where
  "example_cluster =
     [core_point ''Mon Jan 05 22:00:00 +0000 1970'' 424800 (-71.0601) 42.36 0,
      core_point ''Tue Jan 06 22:00:00 +0000 1970'' 511200 (-71.0601) 42.36 0,
      core_point ''Wed Jan 07 22:00:00 +0000 1970'' 597600 (-71.0599) 42.36 0,
      core_point ''Thu Jan 08 22:00:00 +0000 1970'' 684000 (-71.0599) 42.36 0]"


text \<open>
  Example libraries. Time zones are fixed UTC offsets in seconds; the lookup knows the
  eastern United States only; the parser knows three timestamps; the clusterer labels
  every point noise, which is what DBSCAN answers on fewer than \<open>MIN_POINTS\<close> points.
\<close>

definition example_ext :: "int externals" where
  "example_ext =
     \<lparr>dateutil_parse =
        (\<lambda>s. case map_of [(''Tue Jan 06 03:00:00 +0000 1970'', 442800),
                            (''Wed Jan 07 03:00:00 +0000 1970'', 529200),
                            (''Sat Jan 10 03:00:00 +0000 1970'', 788400)] s of
               None \<Rightarrow> Inl ParserError
             | Some w \<Rightarrow> Inr \<lparr>wall_seconds = w, utcoffset = Some 0\<rparr>),
      timezone_at =
        (\<lambda>lon lat. if \<bar>lon\<bar> \<le> 180 \<and> \<bar>lat\<bar> \<le> 90
                    then Inr (if - 80 < lon \<and> lon < - 67 \<and> 25 < lat \<and> lat < 47
                              then Some ''America/New_York'' else None)
                    else Inl ValueError),
      pytz_timezone =
        (\<lambda>zone. case zone of
                   None \<Rightarrow> Inl AttributeError
                 | Some z \<Rightarrow> if z = ''America/New_York'' then Inr (- 18000)
                             else Inl UnknownTimeZoneError),
      astimezone =
        (\<lambda>d tz. case utcoffset d of
                   None \<Rightarrow> Inl ValueError
                 | Some off \<Rightarrow> Inr \<lparr>wall_seconds = wall_seconds d - off + tz,
                                      utcoffset = Some tz\<rparr>),
      turicreate_dbscan_create =
        (\<lambda>sf. Inr (map (\<lambda>i. \<lparr>row_id = i, row_cluster_id = None, row_type = ''noise''\<rparr>)
                         [0 ..< length sf]))\<rparr>"

definition example_tweet :: "string \<Rightarrow> real \<Rightarrow> real \<Rightarrow> tweet" where
  "example_tweet created x y =
     \<lparr>created_at = created, user_name = Some ''a'', user_id = 7,
      coordinates_coordinates_0 = x, coordinates_coordinates_1 = y\<rparr>"


text \<open>A user whose only tweet is from Friday 22:00 local time, and a user with two
  tweets from Monday and Tuesday 22:00 local time, about a kilometre apart.\<close>

definition friday_user :: "tweet list" where
  "friday_user = [example_tweet ''Sat Jan 10 03:00:00 +0000 1970'' (-71.06) 42.36]"

definition monday_user :: "tweet list" where
  "monday_user =
     [example_tweet ''Tue Jan 06 03:00:00 +0000 1970'' (-71.06) 42.36,
      example_tweet ''Wed Jan 07 03:00:00 +0000 1970'' (-71.05) 42.37]"


text \<open>The measure \<open>n_tweets\<close> of the repository, and a measure returning a dict that
  files a value under the same key.\<close>

definition n_tweets :: measure_function where
  "n_tweets = \<lparr>measure_name = ''n_tweets'',
               measure_call = (\<lambda>tweets_df. Inr (Scalar (PyInt (int (length tweets_df)))))\<rparr>"

definition colliding_measure :: measure_function where
  "colliding_measure =
     \<lparr>measure_name = ''colliding_measure'',
      measure_call = (\<lambda>tweets_df. Inr (Dict [''n_tweets'' \<mapsto> PyInt 0]))\<rparr>"






section \<open>Properties of the home selector\<close>

lemma fold_py_max: "fold (\<lambda>item m. if item > m then item else m) ys m = Max (set (m # ys))"
  for m :: "'a::linorder"
proof -
  have "(\<lambda>item m. if item > m then item else m) = (max :: 'a \<Rightarrow> 'a \<Rightarrow> 'a)"
    by (auto simp: fun_eq_iff max_def)
  then show ?thesis by (simp only: Max.set_eq_fold)
qed

lemma py_max_eq: "xs \<noteq> [] \<Longrightarrow> py_max xs = Inr (Max (set xs))"
  by (cases xs) (simp_all only: py_max.simps fold_py_max)

lemma fold_py_min: "fold (\<lambda>item m. if item < m then item else m) ys m = Min (set (m # ys))"
  for m :: "'a::linorder"
proof -
  have "(\<lambda>item m. if item < m then item else m) = (min :: 'a \<Rightarrow> 'a \<Rightarrow> 'a)"
    by (auto simp: fun_eq_iff min_def)
  then show ?thesis by (simp only: Min.set_eq_fold)
qed

lemma py_min_eq: "xs \<noteq> [] \<Longrightarrow> py_min xs = Inr (Min (set xs))"
  by (cases xs) (simp_all only: py_min.simps fold_py_min)

lemma count_list_map_filter: "count_list (map f xs) v = length (filter (\<lambda>c. f c = v) xs)"
  by (induction xs) auto

lemma attaining_max:
  assumes "cas \<noteq> []"
  shows "attaining (\<ge>) f cas = filter (\<lambda>c. f c = Max (set (map f cas))) cas"
proof -
  have fin: "finite (f ` set cas)" and ne: "f ` set cas \<noteq> {}" using assms by auto
  have "(\<forall>c' \<in> set cas. f c \<ge> f c') \<longleftrightarrow> f c = Max (f ` set cas)" if "c \<in> set cas" for c
  proof
    assume "\<forall>c' \<in> set cas. f c \<ge> f c'"
    then show "f c = Max (f ` set cas)" using that Max_eq_iff[OF fin ne, of "f c"]
      by auto
  next
    assume "f c = Max (f ` set cas)"
    then show "\<forall>c' \<in> set cas. f c \<ge> f c'" using fin by auto
  qed
  then show ?thesis unfolding attaining_def by (auto intro: filter_cong)
qed

lemma attaining_min:
  assumes "cas \<noteq> []"
  shows "attaining (\<le>) f cas = filter (\<lambda>c. f c = Min (set (map f cas))) cas"
proof -
  have fin: "finite (f ` set cas)" and ne: "f ` set cas \<noteq> {}" using assms by auto
  have "(\<forall>c' \<in> set cas. f c \<le> f c') \<longleftrightarrow> f c = Min (f ` set cas)" if "c \<in> set cas" for c
  proof
    assume "\<forall>c' \<in> set cas. f c \<le> f c'"
    then show "f c = Min (f ` set cas)" using that Min_eq_iff[OF fin ne, of "f c"]
      by auto
  next
    assume "f c = Min (f ` set cas)"
    then show "\<forall>c' \<in> set cas. f c \<le> f c'" using fin by auto
  qed
  then show ?thesis unfolding attaining_def by (auto intro: filter_cong)
qed

lemma unique_by_value:
  assumes "v \<in> set (map (col column) cas)"
  shows "(case value_counts_loc (map (col column) cas) v of
             Inl e \<Rightarrow> Inl e
           | Inr n \<Rightarrow>
               if n = 1 then
                 (case filter (\<lambda>c. col column c = v) cas of
                    [] \<Rightarrow> Inl IndexError
                  | c # _ \<Rightarrow> Inr (Some (cluster_id c)))
               else Inr None)
         = Inr (case filter (\<lambda>c. col column c = v) cas of [c] \<Rightarrow> Some (cluster_id c) | _ \<Rightarrow> None)"
proof -
  let ?ws = "filter (\<lambda>c. col column c = v) cas"
  have n: "value_counts_loc (map (col column) cas) v = Inr (length ?ws)"
    using assms by (simp add: value_counts_loc_def count_list_map_filter)
  show ?thesis
  proof (cases ?ws)
    case Nil then show ?thesis using n by simp
  next
    case (Cons w ws) then show ?thesis using n by (cases ws) simp_all
  qed
qed

lemma unique_cluster_id_max:
  assumes "cas \<noteq> []"
  shows "unique_cluster_id cas column py_max = Inr (spec_unique_winner (\<ge>) (col column) cas)"
proof -
  let ?xs = "map (col column) cas"
  have "?xs \<noteq> []" using assms by simp
  then have m: "py_max ?xs = Inr (Max (set ?xs))" by (rule py_max_eq)
  have "Max (set ?xs) \<in> set ?xs" using assms by (intro Max_in) auto
  then show ?thesis
    unfolding unique_cluster_id_def spec_unique_winner_def attaining_max[OF assms] m sum.case
    by (rule unique_by_value)
qed

lemma unique_cluster_id_min:
  assumes "cas \<noteq> []"
  shows "unique_cluster_id cas column py_min = Inr (spec_unique_winner (\<le>) (col column) cas)"
proof -
  let ?xs = "map (col column) cas"
  have "?xs \<noteq> []" using assms by simp
  then have m: "py_min ?xs = Inr (Min (set ?xs))" by (rule py_min_eq)
  have "Min (set ?xs) \<in> set ?xs" using assms by (intro Min_in) auto
  then show ?thesis
    unfolding unique_cluster_id_def spec_unique_winner_def attaining_min[OF assms] m sum.case
    by (rule unique_by_value)
qed

lemma col_simps: "col Count = (\<lambda>c. real (count c))" "col Max_dist_from_centroid = max_dist_from_centroid"
  "col Time_range = time_range"
  by (auto simp: fun_eq_iff)

text \<open>
  C1. On every non-empty table of cluster aggregates \<open>determine_home_cluster\<close> returns
  normally, and what it returns is the ordered policy of the specification: the unique
  cluster attaining the maximum count, else the unique cluster attaining the minimum
  \<open>max_dist_from_centroid\<close>, else the unique cluster attaining the maximum
  \<open>time_range\<close>, each with its reason; and \<open>(None, None)\<close> when no rule has a
  unique winner.
\<close>

theorem determine_home_cluster_ordered_policy:
  assumes "cluster_aggregates \<noteq> []"
  shows "determine_home_cluster cluster_aggregates = Inr (spec_home_selector cluster_aggregates)"
  unfolding determine_home_cluster_def spec_home_selector_def home_cluster_loop.simps
    unique_cluster_id_max[OF assms] unique_cluster_id_min[OF assms] col_simps
  by (simp split: option.splits)

text \<open>
  The theorem at scenario C of the specification: two clusters of count 5, dispersions
  10 m and 25 m.
\<close>

theorem determine_home_cluster_ordered_policy_witness:
  "[\<lparr>cluster_id = 0, centroid_lon = 0, centroid_lat = 0, time_range = 100,
      max_dist_from_centroid = 10, count = 5\<rparr>,
    \<lparr>cluster_id = 1, centroid_lon = 0, centroid_lat = 0, time_range = 300,
      max_dist_from_centroid = 25, count = 5\<rparr>] \<noteq> []
   \<and> determine_home_cluster
      [\<lparr>cluster_id = 0, centroid_lon = 0, centroid_lat = 0, time_range = 100,
         max_dist_from_centroid = 10, count = 5\<rparr>,
       \<lparr>cluster_id = 1, centroid_lon = 0, centroid_lat = 0, time_range = 300,
         max_dist_from_centroid = 25, count = 5\<rparr>]
     = Inr (Some 0, Some ''cluster with minimum distance'')"
  using determine_home_cluster_ordered_policy
    [of "[\<lparr>cluster_id = 0, centroid_lon = 0, centroid_lat = 0, time_range = 100,
            max_dist_from_centroid = 10, count = 5\<rparr>,
          \<lparr>cluster_id = 1, centroid_lon = 0, centroid_lat = 0, time_range = 300,
            max_dist_from_centroid = 25, count = 5\<rparr>]"]
  by (simp add: spec_home_selector_def spec_unique_winner_def attaining_def)

section \<open>Properties of the preprocessing\<close>

lemma home_period_iff:
  "r \<in> set (home_period df) \<longleftrightarrow> r \<in> set df \<and> weekday (dt r) \<le> 3 \<and> 9 \<le> hour (dt r)"
  by (auto simp: home_period_def)

text \<open>
  C3. The home-period filter keeps a record of Monday 1970-01-05, 10:00 local time
  (weekday 0, hour 10): the hour test of the source is \<open>dt.hour >= 9\<close> on the 0 to 23 scale
  of \<open>datetime.hour\<close>, so every hour from 09:00 on passes, not only the late evening its
  comment announces.
\<close>

theorem home_period_keeps_monday_morning:
  "home_period
     [with_dt \<lparr>created_at = ''Mon Jan 05 10:00:00 +0000 1970'', user_name = Some ''a'',
               user_id = 7, coordinates_coordinates_0 = -71.06,
               coordinates_coordinates_1 = 42.36\<rparr>
              \<lparr>wall_seconds = 381600, utcoffset = Some 0\<rparr>]
   = [with_dt \<lparr>created_at = ''Mon Jan 05 10:00:00 +0000 1970'', user_name = Some ''a'',
                user_id = 7, coordinates_coordinates_0 = -71.06,
                coordinates_coordinates_1 = 42.36\<rparr>
               \<lparr>wall_seconds = 381600, utcoffset = Some 0\<rparr>]
   \<and> weekday \<lparr>wall_seconds = 381600, utcoffset = Some 0\<rparr> = 0
   \<and> hour \<lparr>wall_seconds = 381600, utcoffset = Some 0\<rparr> = 10
   \<and> \<not> 21 \<le> hour \<lparr>wall_seconds = 381600, utcoffset = Some 0\<rparr>"
  by (simp add: home_period_def with_dt_def weekday_def hour_def tweet.extend_def)

lemma key_update_user_name:
  "BURST_TWEETS_GROUPBY_COLUMNS (t\<lparr>user_name := n\<rparr>) = BURST_TWEETS_GROUPBY_COLUMNS t"
  by (simp add: BURST_TWEETS_GROUPBY_COLUMNS_def)

lemma filter_key_Cons:
  "filter (\<lambda>t. BURST_TWEETS_GROUPBY_COLUMNS t = k) df = t # ts \<Longrightarrow> BURST_TWEETS_GROUPBY_COLUMNS t = k"
proof -
  assume "filter (\<lambda>t. BURST_TWEETS_GROUPBY_COLUMNS t = k) df = t # ts"
  then have "t \<in> set (filter (\<lambda>t. BURST_TWEETS_GROUPBY_COLUMNS t = k) df)" by simp
  then show ?thesis by simp
qed

lemma groups_keys:
  assumes "set ks \<subseteq> set (map BURST_TWEETS_GROUPBY_COLUMNS df)"
  shows "map BURST_TWEETS_GROUPBY_COLUMNS
           (concat (map
             (\<lambda>key. case filter (\<lambda>t. BURST_TWEETS_GROUPBY_COLUMNS t = key) df of
                       [] \<Rightarrow> []
                     | t # ts \<Rightarrow> [t\<lparr>user_name := first_non_null (map user_name (t # ts))\<rparr>])
             ks)) = ks"
  using assms
proof (induction ks)
  case Nil
  then show ?case by simp
next
  case (Cons k ks)
  then obtain u where u: "u \<in> set df" "BURST_TWEETS_GROUPBY_COLUMNS u = k" by auto
  then have "filter (\<lambda>t. BURST_TWEETS_GROUPBY_COLUMNS t = k) df \<noteq> []"
    by (auto simp: filter_empty_conv)
  then obtain t ts where f: "filter (\<lambda>t. BURST_TWEETS_GROUPBY_COLUMNS t = k) df = t # ts"
    by (cases "filter (\<lambda>t. BURST_TWEETS_GROUPBY_COLUMNS t = k) df") auto
  from Cons have "set ks \<subseteq> set (map BURST_TWEETS_GROUPBY_COLUMNS df)" by simp
  from Cons.IH[OF this] f filter_key_Cons[OF f] show ?case
    by (simp add: key_update_user_name)
qed

lemma groupby_first_keys:
  "map BURST_TWEETS_GROUPBY_COLUMNS (groupby_first df)
     = sort (remdups (map BURST_TWEETS_GROUPBY_COLUMNS df))"
  unfolding groupby_first_def by (rule groups_keys) simp

lemma length_groupby_first: "length (groupby_first df) \<le> length df"
proof -
  have "length (groupby_first df) = length (map BURST_TWEETS_GROUPBY_COLUMNS (groupby_first df))"
    by simp
  also have "\<dots> = length (remdups (map BURST_TWEETS_GROUPBY_COLUMNS df))"
    by (simp only: groupby_first_keys length_sort)
  also have "\<dots> \<le> length (map BURST_TWEETS_GROUPBY_COLUMNS df)" by (rule length_remdups_leq)
  finally show ?thesis by simp
qed

lemma groupby_first_row:
  assumes "r \<in> set (groupby_first df)"
  shows "\<exists>t ts. filter (\<lambda>u. BURST_TWEETS_GROUPBY_COLUMNS u = BURST_TWEETS_GROUPBY_COLUMNS r) df = t # ts
           \<and> r = t\<lparr>user_name := first_non_null (map user_name (t # ts))\<rparr>"
proof -
  from assms obtain k where
    r: "r \<in> set (case filter (\<lambda>t. BURST_TWEETS_GROUPBY_COLUMNS t = k) df of
                    [] \<Rightarrow> []
                  | t # ts \<Rightarrow> [t\<lparr>user_name := first_non_null (map user_name (t # ts))\<rparr>])"
    unfolding groupby_first_def set_concat set_map by blast
  then obtain t ts where f: "filter (\<lambda>t. BURST_TWEETS_GROUPBY_COLUMNS t = k) df = t # ts"
    by (cases "filter (\<lambda>t. BURST_TWEETS_GROUPBY_COLUMNS t = k) df") auto
  with r have req: "r = t\<lparr>user_name := first_non_null (map user_name (t # ts))\<rparr>" by simp
  then have "BURST_TWEETS_GROUPBY_COLUMNS r = k"
    using filter_key_Cons[OF f] by (simp add: key_update_user_name)
  with f req show ?thesis by blast
qed

lemma find_filter_Cons: "filter P xs = t # ts \<Longrightarrow> find P xs = Some t"
  by (induction xs) (auto split: if_splits)

text \<open>
  C4, as the code has it. Burst removal keeps one record per distinct
  (\<open>created_at\<close>, longitude, latitude) tuple, and the kept records come out in ascending
  order of that tuple. Each kept record is the first record of its group in the input,
  with a null \<open>user_name\<close> replaced by the first non-null one of the group (so it is
  exactly the first record when that record has a name). \<open>n_burst_tweets\<close> is the number
  of input records minus the number of kept records, and is not negative.
\<close>

theorem groupby_first_sorted_first_of_group:
  "sorted (map BURST_TWEETS_GROUPBY_COLUMNS (groupby_first df))
   \<and> distinct (map BURST_TWEETS_GROUPBY_COLUMNS (groupby_first df))
   \<and> set (map BURST_TWEETS_GROUPBY_COLUMNS (groupby_first df))
       = set (map BURST_TWEETS_GROUPBY_COLUMNS df)
   \<and> (\<forall>r \<in> set (groupby_first df).
         \<exists>t. find (\<lambda>u. BURST_TWEETS_GROUPBY_COLUMNS u = BURST_TWEETS_GROUPBY_COLUMNS r) df = Some t
           \<and> r = t\<lparr>user_name := first_non_null (map user_name
                     (filter (\<lambda>u. BURST_TWEETS_GROUPBY_COLUMNS u = BURST_TWEETS_GROUPBY_COLUMNS r) df))\<rparr>
           \<and> (user_name t \<noteq> None \<longrightarrow> r = t))
   \<and> n_burst_tweets df = int (length df) - int (length (groupby_first df))
   \<and> 0 \<le> n_burst_tweets df"
proof (intro conjI ballI)
  show "sorted (map BURST_TWEETS_GROUPBY_COLUMNS (groupby_first df))"
    by (simp only: groupby_first_keys sorted_sort)
  show "distinct (map BURST_TWEETS_GROUPBY_COLUMNS (groupby_first df))"
    by (simp only: groupby_first_keys distinct_sort distinct_remdups)
  show "set (map BURST_TWEETS_GROUPBY_COLUMNS (groupby_first df))
          = set (map BURST_TWEETS_GROUPBY_COLUMNS df)"
    by (simp only: groupby_first_keys set_sort set_remdups)
  show "n_burst_tweets df = int (length df) - int (length (groupby_first df))"
    by (simp add: n_burst_tweets_def)
  show "0 \<le> n_burst_tweets df"
    using length_groupby_first[of df] by (simp add: n_burst_tweets_def)
next
  fix r assume "r \<in> set (groupby_first df)"
  from groupby_first_row[OF this] obtain t ts where
    f: "filter (\<lambda>u. BURST_TWEETS_GROUPBY_COLUMNS u = BURST_TWEETS_GROUPBY_COLUMNS r) df = t # ts"
    and r: "r = t\<lparr>user_name := first_non_null (map user_name (t # ts))\<rparr>" by blast
  have "user_name t \<noteq> None \<longrightarrow> r = t" using r by (cases "user_name t") auto
  with f r find_filter_Cons[OF f]
  show "\<exists>t. find (\<lambda>u. BURST_TWEETS_GROUPBY_COLUMNS u = BURST_TWEETS_GROUPBY_COLUMNS r) df = Some t
           \<and> r = t\<lparr>user_name := first_non_null (map user_name
                     (filter (\<lambda>u. BURST_TWEETS_GROUPBY_COLUMNS u = BURST_TWEETS_GROUPBY_COLUMNS r) df))\<rparr>
           \<and> (user_name t \<noteq> None \<longrightarrow> r = t)"
    by simp
qed

text \<open>The theorem at three records, the first and third a burst: two are kept, the
  Thursday one first although it came second.\<close>

theorem groupby_first_sorted_first_of_group_witness:
  "\<lparr>created_at = ''Thu Jan 08 22:00:00 +0000 1970'', user_name = Some ''a'', user_id = 7,
     coordinates_coordinates_0 = -71.06, coordinates_coordinates_1 = 42.36\<rparr>
     \<in> set (groupby_first
        [\<lparr>created_at = ''Wed Jan 07 22:00:00 +0000 1970'', user_name = Some ''a'', user_id = 7,
           coordinates_coordinates_0 = -71.06, coordinates_coordinates_1 = 42.36\<rparr>,
         \<lparr>created_at = ''Thu Jan 08 22:00:00 +0000 1970'', user_name = Some ''a'', user_id = 7,
           coordinates_coordinates_0 = -71.06, coordinates_coordinates_1 = 42.36\<rparr>,
         \<lparr>created_at = ''Wed Jan 07 22:00:00 +0000 1970'', user_name = Some ''a'', user_id = 7,
           coordinates_coordinates_0 = -71.06, coordinates_coordinates_1 = 42.36\<rparr>])
   \<and> map created_at (groupby_first
        [\<lparr>created_at = ''Wed Jan 07 22:00:00 +0000 1970'', user_name = Some ''a'', user_id = 7,
           coordinates_coordinates_0 = -71.06, coordinates_coordinates_1 = 42.36\<rparr>,
         \<lparr>created_at = ''Thu Jan 08 22:00:00 +0000 1970'', user_name = Some ''a'', user_id = 7,
           coordinates_coordinates_0 = -71.06, coordinates_coordinates_1 = 42.36\<rparr>,
         \<lparr>created_at = ''Wed Jan 07 22:00:00 +0000 1970'', user_name = Some ''a'', user_id = 7,
           coordinates_coordinates_0 = -71.06, coordinates_coordinates_1 = 42.36\<rparr>])
       = [''Thu Jan 08 22:00:00 +0000 1970'', ''Wed Jan 07 22:00:00 +0000 1970'']
   \<and> n_burst_tweets
        [\<lparr>created_at = ''Wed Jan 07 22:00:00 +0000 1970'', user_name = Some ''a'', user_id = 7,
           coordinates_coordinates_0 = -71.06, coordinates_coordinates_1 = 42.36\<rparr>,
         \<lparr>created_at = ''Thu Jan 08 22:00:00 +0000 1970'', user_name = Some ''a'', user_id = 7,
           coordinates_coordinates_0 = -71.06, coordinates_coordinates_1 = 42.36\<rparr>,
         \<lparr>created_at = ''Wed Jan 07 22:00:00 +0000 1970'', user_name = Some ''a'', user_id = 7,
           coordinates_coordinates_0 = -71.06, coordinates_coordinates_1 = 42.36\<rparr>] = 1"
  using groupby_first_sorted_first_of_group
    [of "[\<lparr>created_at = ''Wed Jan 07 22:00:00 +0000 1970'', user_name = Some ''a'', user_id = 7,
           coordinates_coordinates_0 = -71.06, coordinates_coordinates_1 = 42.36\<rparr>,
         \<lparr>created_at = ''Thu Jan 08 22:00:00 +0000 1970'', user_name = Some ''a'', user_id = 7,
           coordinates_coordinates_0 = -71.06, coordinates_coordinates_1 = 42.36\<rparr>,
         \<lparr>created_at = ''Wed Jan 07 22:00:00 +0000 1970'', user_name = Some ''a'', user_id = 7,
           coordinates_coordinates_0 = -71.06, coordinates_coordinates_1 = 42.36\<rparr>]"]
  by (simp add: groupby_first_def n_burst_tweets_def BURST_TWEETS_GROUPBY_COLUMNS_def)

text \<open>
  C4 as stated fails: a Wednesday tweet followed by a Thursday tweet, no bursts. Keeping
  the first record of each group in the original order leaves the input as it is; the
  code returns the Thursday tweet first, since \<open>groupby\<close> sorts the keys and
  \<open>''Thu ...''\<close> is before \<open>''Wed ...''\<close> as a string.
\<close>

theorem groupby_first_not_original_order:
  "groupby_first
     [\<lparr>created_at = ''Wed Jan 07 22:00:00 +0000 1970'', user_name = Some ''a'', user_id = 7,
        coordinates_coordinates_0 = -71.06, coordinates_coordinates_1 = 42.36\<rparr>,
      \<lparr>created_at = ''Thu Jan 08 22:00:00 +0000 1970'', user_name = Some ''a'', user_id = 7,
        coordinates_coordinates_0 = -71.06, coordinates_coordinates_1 = 42.36\<rparr>]
   \<noteq> spec_remove_burst_tweets
     [\<lparr>created_at = ''Wed Jan 07 22:00:00 +0000 1970'', user_name = Some ''a'', user_id = 7,
        coordinates_coordinates_0 = -71.06, coordinates_coordinates_1 = 42.36\<rparr>,
      \<lparr>created_at = ''Thu Jan 08 22:00:00 +0000 1970'', user_name = Some ''a'', user_id = 7,
        coordinates_coordinates_0 = -71.06, coordinates_coordinates_1 = 42.36\<rparr>]"
  by (simp add: groupby_first_def spec_remove_burst_tweets_def BURST_TWEETS_GROUPBY_COLUMNS_def)

section \<open>Properties of the cluster aggregates\<close>

lemma haversine_same_second_argument:
  "haversine x1 y x2 y = RADIUS_OF_EARTH * (2 * arcsin \<bar>sin (radians (x2 - x1) / 2)\<bar>)"
  by (simp add: haversine_def radians_def)

lemma great_circle_same_latitude:
  "great_circle_distance (x1, y) (x2, y)
     = RADIUS_OF_EARTH * (2 * arcsin (\<bar>cos (radians y)\<bar> * \<bar>sin (radians (x2 - x1) / 2)\<bar>))"
  by (simp add: great_circle_distance_def haversine_def radians_def real_sqrt_mult
      flip: power2_eq_square)

lemma small_sine: "0 < sin (pi / 3600000)" "sin (pi / 3600000) \<le> 1"
proof -
  have "0 < pi / 3600000" "pi / 3600000 < pi" using pi_gt_zero by auto
  then show "0 < sin (pi / 3600000)" by (rule sin_gt_zero)
  show "sin (pi / 3600000) \<le> 1" by simp
qed

lemma cos_boston: "0 < cos (radians 42.36)" "cos (radians 42.36) < 1"
proof -
  have pos: "0 < radians 42.36" and lt: "radians 42.36 < pi / 2"
    using pi_gt_zero by (auto simp: radians_def)
  then show "0 < cos (radians 42.36)" by (intro cos_gt_zero) 
  have "cos (radians 42.36) < cos 0"
    using pos lt pi_gt_zero by (intro cos_monotone_0_pi) auto
  then show "cos (radians 42.36) < 1" by simp
qed

lemma abs_sin_of_abs:
  fixes t a :: real
  assumes "\<bar>t\<bar> = a" and "0 \<le> sin a"
  shows "\<bar>sin t\<bar> = sin a"
proof (cases "0 \<le> t")
  case True
  with assms have "t = a" by simp
  with assms show ?thesis by simp
next
  case False
  with assms have "t = - a" by simp
  with assms show ?thesis by simp
qed

lemma code_distance_west:
  "haversine (-71.06) 42.36 (-71.0601) 42.36 = RADIUS_OF_EARTH * (2 * arcsin (sin (pi / 3600000)))"
proof -
  have "\<bar>radians (-71.0601 - (-71.06)) / 2\<bar> = pi / 3600000" by (simp add: radians_def)
  then have "\<bar>sin (radians (-71.0601 - (-71.06)) / 2)\<bar> = sin (pi / 3600000)"
    using small_sine(1) by (intro abs_sin_of_abs) auto
  then show ?thesis by (simp only: haversine_same_second_argument)
qed

lemma code_distance_east:
  "haversine (-71.06) 42.36 (-71.0599) 42.36 = RADIUS_OF_EARTH * (2 * arcsin (sin (pi / 3600000)))"
proof -
  have "\<bar>radians (-71.0599 - (-71.06)) / 2\<bar> = pi / 3600000" by (simp add: radians_def)
  then have "\<bar>sin (radians (-71.0599 - (-71.06)) / 2)\<bar> = sin (pi / 3600000)"
    using small_sine(1) by (intro abs_sin_of_abs) auto
  then show ?thesis by (simp only: haversine_same_second_argument)
qed

lemma spec_distance_west:
  "great_circle_distance (-71.06, 42.36) (-71.0601, 42.36)
     = RADIUS_OF_EARTH * (2 * arcsin (cos (radians 42.36) * sin (pi / 3600000)))"
proof -
  have "\<bar>radians (-71.0601 - (-71.06)) / 2\<bar> = pi / 3600000" by (simp add: radians_def)
  then have "\<bar>sin (radians (-71.0601 - (-71.06)) / 2)\<bar> = sin (pi / 3600000)"
    using small_sine(1) by (intro abs_sin_of_abs) auto
  moreover have "\<bar>cos (radians 42.36)\<bar> = cos (radians 42.36)" using cos_boston(1) by simp
  ultimately show ?thesis by (simp only: great_circle_same_latitude)
qed

lemma spec_distance_east:
  "great_circle_distance (-71.06, 42.36) (-71.0599, 42.36)
     = RADIUS_OF_EARTH * (2 * arcsin (cos (radians 42.36) * sin (pi / 3600000)))"
proof -
  have "\<bar>radians (-71.0599 - (-71.06)) / 2\<bar> = pi / 3600000" by (simp add: radians_def)
  then have "\<bar>sin (radians (-71.0599 - (-71.06)) / 2)\<bar> = sin (pi / 3600000)"
    using small_sine(1) by (intro abs_sin_of_abs) auto
  moreover have "\<bar>cos (radians 42.36)\<bar> = cos (radians 42.36)" using cos_boston(1) by simp
  ultimately show ?thesis by (simp only: great_circle_same_latitude)
qed

lemma spec_below_code:
  "RADIUS_OF_EARTH * (2 * arcsin (cos (radians 42.36) * sin (pi / 3600000)))
     < RADIUS_OF_EARTH * (2 * arcsin (sin (pi / 3600000)))"
proof -
  let ?s = "sin (pi / 3600000)" and ?c = "cos (radians 42.36)"
  have cs: "?c * ?s < ?s" using small_sine cos_boston by simp
  have "0 \<le> ?c * ?s" using small_sine cos_boston by simp
  moreover have s1: "?s \<le> 1" by simp
  ultimately have "\<bar>?c * ?s\<bar> \<le> 1" "\<bar>?s\<bar> \<le> 1" using cs small_sine(1) by linarith+
  then have "arcsin (?c * ?s) < arcsin ?s" using cs by (simp add: arcsin_less_mono)
  then show ?thesis by (simp add: RADIUS_OF_EARTH_def)
qed

lemma example_cluster_means:
  "mean (map LON_COLUMN example_cluster) = -71.06"
  "mean (map LAT_COLUMN example_cluster) = 42.36"
  by (simp_all add: example_cluster_def core_point_def mean_def)

lemma example_cluster_time_range:
  "total_seconds_range (map dt example_cluster) = Inr 259200"
  by (simp add: example_cluster_def core_point_def total_seconds_range_def instant_def)

lemma example_cluster_code_distances:
  "map (\<lambda>r. haversine (-71.06) 42.36 (LON_COLUMN r) (LAT_COLUMN r)) example_cluster
     = replicate 4 (RADIUS_OF_EARTH * (2 * arcsin (sin (pi / 3600000))))"
proof -
  have "map (\<lambda>r. haversine (-71.06) 42.36 (LON_COLUMN r) (LAT_COLUMN r)) example_cluster
          = [haversine (-71.06) 42.36 (-71.0601) 42.36, haversine (-71.06) 42.36 (-71.0601) 42.36,
             haversine (-71.06) 42.36 (-71.0599) 42.36, haversine (-71.06) 42.36 (-71.0599) 42.36]"
    by (simp add: example_cluster_def core_point_def)
  then show ?thesis
    by (simp only: code_distance_west code_distance_east) (simp add: numeral_eq_Suc)
qed

lemma example_cluster_spec_distances:
  "(\<lambda>r. great_circle_distance (-71.06, 42.36) (LON_COLUMN r, LAT_COLUMN r)) ` set example_cluster
     = {RADIUS_OF_EARTH * (2 * arcsin (cos (radians 42.36) * sin (pi / 3600000)))}"
proof -
  have "(\<lambda>r. great_circle_distance (-71.06, 42.36) (LON_COLUMN r, LAT_COLUMN r)) ` set example_cluster
          = {great_circle_distance (-71.06, 42.36) (-71.0601, 42.36),
             great_circle_distance (-71.06, 42.36) (-71.0599, 42.36)}"
    by (auto simp: example_cluster_def core_point_def)
  then show ?thesis
    by (simp only: spec_distance_west spec_distance_east) simp
qed

lemma example_cluster_aggregate:
  "cluster_aggregate_of example_cluster 0 =
     Inr \<lparr>cluster_id = 0, centroid_lon = -71.06, centroid_lat = 42.36, time_range = 259200,
          max_dist_from_centroid = RADIUS_OF_EARTH * (2 * arcsin (sin (pi / 3600000))),
          count = 4\<rparr>"
proof -
  have f: "filter (\<lambda>r. core_cluster_id r = 0) example_cluster = example_cluster"
    by (simp add: example_cluster_def core_point_def)
  have c: "count_list (map core_cluster_id example_cluster) 0 = 4"
    by (simp add: example_cluster_def core_point_def)
  have m: "py_max (replicate 4 (RADIUS_OF_EARTH * (2 * arcsin (sin (pi / 3600000)))))
             = Inr (RADIUS_OF_EARTH * (2 * arcsin (sin (pi / 3600000))))"
    by (simp add: numeral_eq_Suc)
  show ?thesis
    unfolding cluster_aggregate_of_def Let_def f example_cluster_means
      example_cluster_time_range example_cluster_code_distances m c
    by simp
qed

text \<open>
  C2. On the example cluster (centroid longitude -71.06, latitude 42.36, every point
  0.0001 degrees of longitude from it) the aggregate table holds
  \<open>R * 2 * arcsin (sin (pi / 3600000))\<close>, about 11.1 m, for \<open>max_dist_from_centroid\<close>, while
  the greatest great-circle distance from the centroid is
  \<open>R * 2 * arcsin (cos (radians 42.36) * sin (pi / 3600000))\<close>, about 8.2 m:
  \<open>create_cluster_aggregates\<close> passes (longitude, latitude) to \<open>haversine\<close>, whose
  parameters are (latitude, longitude).
\<close>

theorem max_dist_from_centroid_swaps_lon_lat:
  "create_cluster_aggregates example_cluster =
     Inr [\<lparr>cluster_id = 0, centroid_lon = -71.06, centroid_lat = 42.36, time_range = 259200,
           max_dist_from_centroid = RADIUS_OF_EARTH * (2 * arcsin (sin (pi / 3600000))),
           count = 4\<rparr>]
   \<and> spec_max_dist_from_centroid example_cluster
       = RADIUS_OF_EARTH * (2 * arcsin (cos (radians 42.36) * sin (pi / 3600000)))
   \<and> RADIUS_OF_EARTH * (2 * arcsin (cos (radians 42.36) * sin (pi / 3600000)))
       < RADIUS_OF_EARTH * (2 * arcsin (sin (pi / 3600000)))"
proof (intro conjI)
  have u: "unique (map core_cluster_id example_cluster) = [0]"
    by (simp add: example_cluster_def core_point_def unique_def)
  show "create_cluster_aggregates example_cluster =
     Inr [\<lparr>cluster_id = 0, centroid_lon = -71.06, centroid_lat = 42.36, time_range = 259200,
           max_dist_from_centroid = RADIUS_OF_EARTH * (2 * arcsin (sin (pi / 3600000))),
           count = 4\<rparr>]"
    unfolding create_cluster_aggregates_def u by (simp add: example_cluster_aggregate)
  show "spec_max_dist_from_centroid example_cluster
       = RADIUS_OF_EARTH * (2 * arcsin (cos (radians 42.36) * sin (pi / 3600000)))"
    unfolding spec_max_dist_from_centroid_def example_cluster_means example_cluster_spec_distances
    by simp
  show "RADIUS_OF_EARTH * (2 * arcsin (cos (radians 42.36) * sin (pi / 3600000)))
       < RADIUS_OF_EARTH * (2 * arcsin (sin (pi / 3600000)))"
    by (rule spec_below_code)
qed

section \<open>Properties of the localizer\<close>





section \<open>Properties of dbscan\<close>

lemma merge_dicts_two: "merge_dicts [a, b] = Inr (a ++ b)"
  by simp

lemma initial_debug_info_apply:
  "initial_debug_info ''clustering_attempted'' = Some (PyInt 0)"
  "initial_debug_info ''n_dbscan_core_tweets'' = Some PyNone"
  "initial_debug_info ''n_dbscan_boundary_tweets'' = Some PyNone"
  "initial_debug_info ''n_dbscan_noise_tweets'' = Some PyNone"
  by (simp_all add: initial_debug_info_def DBSCAN_CLUSTER_TYPES_def n_dbscan_key_def map_add_def)

lemma add_home_decision_apply:
  "(info ++ home_decision hid reason clon clat cnt) ''home_cluster_id'' = Some hid"
  "(info ++ home_decision hid reason clon clat cnt) ''home_cluster_reason'' = Some reason"
  "(info ++ home_decision hid reason clon clat cnt) ''home_cluster_centroid_lon'' = Some clon"
  "(info ++ home_decision hid reason clon clat cnt) ''home_cluster_centroid_lat'' = Some clat"
  "(info ++ home_decision hid reason clon clat cnt) ''home_cluster_count'' = Some cnt"
  by (simp_all add: home_decision_def)

lemma add_home_decision_other:
  "(info ++ home_decision hid reason clon clat cnt) ''clustering_attempted''
     = info ''clustering_attempted''"
  "(info ++ home_decision hid reason clon clat cnt) ''n_dbscan_core_tweets''
     = info ''n_dbscan_core_tweets''"
  "(info ++ home_decision hid reason clon clat cnt) ''n_dbscan_boundary_tweets''
     = info ''n_dbscan_boundary_tweets''"
  "(info ++ home_decision hid reason clon clat cnt) ''n_dbscan_noise_tweets''
     = info ''n_dbscan_noise_tweets''"
  by (simp_all add: home_decision_def)

lemma store_type_counts_apply:
  "store_type_counts results info ''n_dbscan_core_tweets''
     = Some (PyInt (int (count_list (map row_type results) ''core'')))"
  "store_type_counts results info ''n_dbscan_boundary_tweets''
     = Some (PyInt (int (count_list (map row_type results) ''boundary'')))"
  "store_type_counts results info ''n_dbscan_noise_tweets''
     = Some (PyInt (int (count_list (map row_type results) ''noise'')))"
  "store_type_counts results info ''clustering_attempted'' = info ''clustering_attempted''"
  by (simp_all add: store_type_counts_def DBSCAN_CLUSTER_TYPES_def n_dbscan_key_def
      count_list_0_iff)

lemma decide_home_is_home_decision:
  assumes "decide_home cluster_aggregates = Inr decision"
  shows "\<exists>hid reason clon clat cnt. decision = home_decision hid reason clon clat cnt"
  using assms unfolding decide_home_def
  by (auto split: sum.splits prod.splits option.splits list.splits) blast+

lemma dbscan_cluster_debug_info:
  assumes "dbscan_cluster ext uid info df = Inr (d, ev)"
  shows "\<exists>results. turicreate_dbscan_create ext (map (\<lambda>r. (LON_COLUMN r, LAT_COLUMN r)) df)
                       = Inr results
          \<and> d ''clustering_attempted'' = info ''clustering_attempted''
          \<and> d ''n_dbscan_core_tweets''
              = Some (PyInt (int (count_list (map row_type results) ''core'')))
          \<and> d ''n_dbscan_boundary_tweets''
              = Some (PyInt (int (count_list (map row_type results) ''boundary'')))
          \<and> d ''n_dbscan_noise_tweets''
              = Some (PyInt (int (count_list (map row_type results) ''noise'')))"
proof -
  from assms obtain results where
    r: "turicreate_dbscan_create ext (map (\<lambda>r. (LON_COLUMN r, LAT_COLUMN r)) df) = Inr results"
    unfolding dbscan_cluster_def Let_def by (auto split: sum.splits)
  from assms r obtain hid reason clon clat cnt where
    "d = store_type_counts results info ++ home_decision hid reason clon clat cnt"
    unfolding dbscan_cluster_def Let_def
    by (auto split: sum.splits if_splits dest!: decide_home_is_home_decision)
  with r show ?thesis
    by (simp only: add_home_decision_other store_type_counts_apply) blast
qed

lemma dbscan_cluster_no_clusters:
  assumes "turicreate_dbscan_create ext (map (\<lambda>r. (LON_COLUMN r, LAT_COLUMN r)) df) = Inr results"
    and "\<forall>r \<in> set results. row_cluster_id r = None"
  shows "dbscan_cluster ext uid info df
           = Inr (store_type_counts results info
                    ++ home_decision (PyInt (- 1)) (PyStr ''no clusters'') PyNone PyNone PyNone,
                  [Dbscan_create (map (\<lambda>r. (LON_COLUMN r, LAT_COLUMN r)) df)])"
  using assms unfolding dbscan_cluster_def Let_def by (simp add: list_all_iff)

lemma dbscan_unfold:
  assumes "tweets_df \<noteq> []"
    and "localize_datetimes ext Map.empty (groupby_first tweets_df) = Inr localized"
  shows "dbscan ext tweets_df =
     (if home_period localized = [] then
        Inr (initial_debug_info(''n_burst_tweets'' \<mapsto> PyInt (n_burst_tweets tweets_df),
                                ''n_home_period_tweets'' \<mapsto> PyInt 0)
               ++ home_decision (PyInt (- 1)) (PyStr ''no tweets in desired time range'')
                    PyNone PyNone PyNone, [])
      else dbscan_cluster ext (user_id (hd tweets_df))
             (initial_debug_info(''n_burst_tweets'' \<mapsto> PyInt (n_burst_tweets tweets_df),
                ''n_home_period_tweets'' \<mapsto> PyInt (int (length (home_period localized))),
                ''clustering_attempted'' \<mapsto> PyInt 1))
             (home_period localized))"
  using assms unfolding dbscan_def Let_def by (cases tweets_df) simp_all

lemma count_list_three:
  assumes "\<forall>x \<in> set xs. x = a \<or> x = b \<or> x = c" and "a \<noteq> b" "a \<noteq> c" "b \<noteq> c"
  shows "count_list xs a + count_list xs b + count_list xs c = length xs"
  using assms by (induction xs) auto

lemma localize_friday_user:
  "localize_datetimes example_ext Map.empty (groupby_first friday_user)
     = Inr [with_dt (example_tweet ''Sat Jan 10 03:00:00 +0000 1970'' (-71.06) 42.36)
                    \<lparr>wall_seconds = 770400, utcoffset = Some (- 18000)\<rparr>]"
  by (simp add: friday_user_def example_tweet_def example_ext_def groupby_first_def
      BURST_TWEETS_GROUPBY_COLUMNS_def get_localized_dt_def lookup_tz_def)

lemma home_period_friday_user:
  "home_period [with_dt (example_tweet ''Sat Jan 10 03:00:00 +0000 1970'' (-71.06) 42.36)
                        \<lparr>wall_seconds = 770400, utcoffset = Some (- 18000)\<rparr>] = []"
  by (simp add: home_period_def with_dt_def tweet.extend_def weekday_def hour_def)

lemma localize_monday_user:
  "localize_datetimes example_ext Map.empty (groupby_first monday_user)
     = Inr [with_dt (example_tweet ''Tue Jan 06 03:00:00 +0000 1970'' (-71.06) 42.36)
                    \<lparr>wall_seconds = 424800, utcoffset = Some (- 18000)\<rparr>,
            with_dt (example_tweet ''Wed Jan 07 03:00:00 +0000 1970'' (-71.05) 42.37)
                    \<lparr>wall_seconds = 511200, utcoffset = Some (- 18000)\<rparr>]"
  by (simp add: monday_user_def example_tweet_def example_ext_def groupby_first_def
      BURST_TWEETS_GROUPBY_COLUMNS_def get_localized_dt_def lookup_tz_def)

lemma home_period_monday_user:
  "home_period [with_dt (example_tweet ''Tue Jan 06 03:00:00 +0000 1970'' (-71.06) 42.36)
                        \<lparr>wall_seconds = 424800, utcoffset = Some (- 18000)\<rparr>,
                with_dt (example_tweet ''Wed Jan 07 03:00:00 +0000 1970'' (-71.05) 42.37)
                        \<lparr>wall_seconds = 511200, utcoffset = Some (- 18000)\<rparr>]
     = [with_dt (example_tweet ''Tue Jan 06 03:00:00 +0000 1970'' (-71.06) 42.36)
                \<lparr>wall_seconds = 424800, utcoffset = Some (- 18000)\<rparr>,
        with_dt (example_tweet ''Wed Jan 07 03:00:00 +0000 1970'' (-71.05) 42.37)
                \<lparr>wall_seconds = 511200, utcoffset = Some (- 18000)\<rparr>]"
  by (simp add: home_period_def with_dt_def tweet.extend_def weekday_def hour_def)

lemma clusterer_monday_user:
  "turicreate_dbscan_create example_ext
     (map (\<lambda>r. (LON_COLUMN r, LAT_COLUMN r))
        [with_dt (example_tweet ''Tue Jan 06 03:00:00 +0000 1970'' (-71.06) 42.36)
                 \<lparr>wall_seconds = 424800, utcoffset = Some (- 18000)\<rparr>,
         with_dt (example_tweet ''Wed Jan 07 03:00:00 +0000 1970'' (-71.05) 42.37)
                 \<lparr>wall_seconds = 511200, utcoffset = Some (- 18000)\<rparr>])
     = Inr [\<lparr>row_id = 0, row_cluster_id = None, row_type = ''noise''\<rparr>,
            \<lparr>row_id = 1, row_cluster_id = None, row_type = ''noise''\<rparr>]"
  by (simp add: example_ext_def upt_rec)

text \<open>
  C5. When the input frame is not empty, every timestamp parses, and no localized record
  is in the home period, \<open>dbscan\<close> returns with \<open>home_cluster_id = -1\<close>,
  \<open>home_cluster_reason = "no tweets in desired time range"\<close> and null centroid longitude,
  centroid latitude and count, and the run has no effect at all: the clusterer is not
  called.
\<close>

theorem dbscan_no_tweets_in_time_range:
  assumes "tweets_df \<noteq> []"
    and "localize_datetimes ext Map.empty (groupby_first tweets_df) = Inr localized"
    and "home_period localized = []"
  shows "returned (dbscan ext tweets_df) ''home_cluster_id'' = Some (PyInt (- 1))
    \<and> returned (dbscan ext tweets_df) ''home_cluster_reason''
        = Some (PyStr ''no tweets in desired time range'')
    \<and> returned (dbscan ext tweets_df) ''home_cluster_centroid_lon'' = Some PyNone
    \<and> returned (dbscan ext tweets_df) ''home_cluster_centroid_lat'' = Some PyNone
    \<and> returned (dbscan ext tweets_df) ''home_cluster_count'' = Some PyNone
    \<and> effects (dbscan ext tweets_df) = Some []"
  unfolding dbscan_unfold[OF assms(1,2)] using assms(3)
  by (simp add: returned_def effects_def add_home_decision_apply)

theorem dbscan_no_tweets_in_time_range_witness:
  "returned (dbscan example_ext friday_user) ''home_cluster_id'' = Some (PyInt (- 1))
    \<and> returned (dbscan example_ext friday_user) ''home_cluster_reason''
        = Some (PyStr ''no tweets in desired time range'')
    \<and> returned (dbscan example_ext friday_user) ''home_cluster_centroid_lon'' = Some PyNone
    \<and> returned (dbscan example_ext friday_user) ''home_cluster_centroid_lat'' = Some PyNone
    \<and> returned (dbscan example_ext friday_user) ''home_cluster_count'' = Some PyNone
    \<and> effects (dbscan example_ext friday_user) = Some []"
proof -
  have "friday_user \<noteq> []" by (simp add: friday_user_def)
  then show ?thesis
    using localize_friday_user home_period_friday_user
    by (rule dbscan_no_tweets_in_time_range)
qed

text \<open>
  C6. When clustering runs (the frame is not empty, every timestamp parses, some record
  is in the home period, the clusterer returns) and every row of its result has a null
  cluster id, \<open>dbscan\<close> returns with \<open>home_cluster_id = -1\<close>,
  \<open>home_cluster_reason = "no clusters"\<close> and null centroid longitude, centroid latitude
  and count.
\<close>

theorem dbscan_no_clusters:
  assumes "tweets_df \<noteq> []"
    and "localize_datetimes ext Map.empty (groupby_first tweets_df) = Inr localized"
    and "home_period localized \<noteq> []"
    and "turicreate_dbscan_create ext
           (map (\<lambda>r. (LON_COLUMN r, LAT_COLUMN r)) (home_period localized)) = Inr results"
    and "\<forall>r \<in> set results. row_cluster_id r = None"
  shows "returned (dbscan ext tweets_df) ''home_cluster_id'' = Some (PyInt (- 1))
    \<and> returned (dbscan ext tweets_df) ''home_cluster_reason'' = Some (PyStr ''no clusters'')
    \<and> returned (dbscan ext tweets_df) ''home_cluster_centroid_lon'' = Some PyNone
    \<and> returned (dbscan ext tweets_df) ''home_cluster_centroid_lat'' = Some PyNone
    \<and> returned (dbscan ext tweets_df) ''home_cluster_count'' = Some PyNone"
  unfolding dbscan_unfold[OF assms(1,2)] dbscan_cluster_no_clusters[OF assms(4,5)]
  using assms(3) by (simp add: returned_def add_home_decision_apply)

theorem dbscan_no_clusters_witness:
  "returned (dbscan example_ext monday_user) ''home_cluster_id'' = Some (PyInt (- 1))
    \<and> returned (dbscan example_ext monday_user) ''home_cluster_reason''
        = Some (PyStr ''no clusters'')
    \<and> returned (dbscan example_ext monday_user) ''home_cluster_centroid_lon'' = Some PyNone
    \<and> returned (dbscan example_ext monday_user) ''home_cluster_centroid_lat'' = Some PyNone
    \<and> returned (dbscan example_ext monday_user) ''home_cluster_count'' = Some PyNone"
proof -
  have ne: "monday_user \<noteq> []" by (simp add: monday_user_def)
  have hp: "home_period
      [with_dt (example_tweet ''Tue Jan 06 03:00:00 +0000 1970'' (-71.06) 42.36)
               \<lparr>wall_seconds = 424800, utcoffset = Some (- 18000)\<rparr>,
       with_dt (example_tweet ''Wed Jan 07 03:00:00 +0000 1970'' (-71.05) 42.37)
               \<lparr>wall_seconds = 511200, utcoffset = Some (- 18000)\<rparr>] \<noteq> []"
    by (simp only: home_period_monday_user) simp
  have cl: "turicreate_dbscan_create example_ext
      (map (\<lambda>r. (LON_COLUMN r, LAT_COLUMN r)) (home_period
        [with_dt (example_tweet ''Tue Jan 06 03:00:00 +0000 1970'' (-71.06) 42.36)
                 \<lparr>wall_seconds = 424800, utcoffset = Some (- 18000)\<rparr>,
         with_dt (example_tweet ''Wed Jan 07 03:00:00 +0000 1970'' (-71.05) 42.37)
                 \<lparr>wall_seconds = 511200, utcoffset = Some (- 18000)\<rparr>]))
     = Inr [\<lparr>row_id = 0, row_cluster_id = None, row_type = ''noise''\<rparr>,
            \<lparr>row_id = 1, row_cluster_id = None, row_type = ''noise''\<rparr>]"
    by (simp only: home_period_monday_user clusterer_monday_user)
  have noise: "\<forall>r \<in> set [\<lparr>row_id = 0, row_cluster_id = None, row_type = ''noise''\<rparr>,
                           \<lparr>row_id = 1, row_cluster_id = None, row_type = ''noise''\<rparr>].
                 row_cluster_id r = None"
    by simp
  show ?thesis
    by (rule dbscan_no_clusters[OF ne localize_monday_user hp cl noise])
qed

lemma dbscan_monday_user_returns:
  "dbscan example_ext monday_user
     = Inr (store_type_counts
              [\<lparr>row_id = 0, row_cluster_id = None, row_type = ''noise''\<rparr>,
               \<lparr>row_id = 1, row_cluster_id = None, row_type = ''noise''\<rparr>]
              (initial_debug_info(''n_burst_tweets'' \<mapsto> PyInt (n_burst_tweets monday_user),
                 ''n_home_period_tweets'' \<mapsto> PyInt 2,
                 ''clustering_attempted'' \<mapsto> PyInt 1))
            ++ home_decision (PyInt (- 1)) (PyStr ''no clusters'') PyNone PyNone PyNone,
           [Dbscan_create [(-71.06, 42.36), (-71.05, 42.37)]])"
proof -
  have ne: "monday_user \<noteq> []" by (simp add: monday_user_def)
  have cl: "turicreate_dbscan_create example_ext
      (map (\<lambda>r. (LON_COLUMN r, LAT_COLUMN r))
        [with_dt (example_tweet ''Tue Jan 06 03:00:00 +0000 1970'' (-71.06) 42.36)
                 \<lparr>wall_seconds = 424800, utcoffset = Some (- 18000)\<rparr>,
         with_dt (example_tweet ''Wed Jan 07 03:00:00 +0000 1970'' (-71.05) 42.37)
                 \<lparr>wall_seconds = 511200, utcoffset = Some (- 18000)\<rparr>])
     = Inr [\<lparr>row_id = 0, row_cluster_id = None, row_type = ''noise''\<rparr>,
            \<lparr>row_id = 1, row_cluster_id = None, row_type = ''noise''\<rparr>]"
    by (rule clusterer_monday_user)
  have noise: "\<forall>r \<in> set [\<lparr>row_id = 0, row_cluster_id = None, row_type = ''noise''\<rparr>,
                           \<lparr>row_id = 1, row_cluster_id = None, row_type = ''noise''\<rparr>].
                 row_cluster_id r = None"
    by simp
  show ?thesis
    unfolding dbscan_unfold[OF ne localize_monday_user] home_period_monday_user
      dbscan_cluster_no_clusters[OF cl noise]
    by (simp add: with_dt_def example_tweet_def tweet.extend_def)
qed

text \<open>
  C7. Whenever clustering is attempted and \<open>dbscan\<close> returns, the three counters
  \<open>n_dbscan_core_tweets\<close>, \<open>n_dbscan_boundary_tweets\<close> and \<open>n_dbscan_noise_tweets\<close> of
  the returned dict are integers, each the number of result rows of its type (0 for a
  type that does not occur). When the clusterer labels every point it was given with one
  of the three types, they add up to the number of points passed to it.
\<close>

theorem dbscan_type_counters_sum:
  assumes "tweets_df \<noteq> []"
    and "localize_datetimes ext Map.empty (groupby_first tweets_df) = Inr localized"
    and "home_period localized \<noteq> []"
    and "turicreate_dbscan_create ext
           (map (\<lambda>r. (LON_COLUMN r, LAT_COLUMN r)) (home_period localized)) = Inr results"
    and "length results = length (home_period localized)"
    and "\<forall>r \<in> set results. row_type r \<in> set DBSCAN_CLUSTER_TYPES"
    and "dbscan ext tweets_df = Inr (d, ev)"
  shows "d ''n_dbscan_core_tweets''
           = Some (PyInt (int (length (filter (\<lambda>r. row_type r = ''core'') results))))
    \<and> d ''n_dbscan_boundary_tweets''
           = Some (PyInt (int (length (filter (\<lambda>r. row_type r = ''boundary'') results))))
    \<and> d ''n_dbscan_noise_tweets''
           = Some (PyInt (int (length (filter (\<lambda>r. row_type r = ''noise'') results))))
    \<and> length (filter (\<lambda>r. row_type r = ''core'') results)
        + length (filter (\<lambda>r. row_type r = ''boundary'') results)
        + length (filter (\<lambda>r. row_type r = ''noise'') results)
       = length (map (\<lambda>r. (LON_COLUMN r, LAT_COLUMN r)) (home_period localized))"
proof -
  from assms(7) have "dbscan_cluster ext (user_id (hd tweets_df))
             (initial_debug_info(''n_burst_tweets'' \<mapsto> PyInt (n_burst_tweets tweets_df),
                ''n_home_period_tweets'' \<mapsto> PyInt (int (length (home_period localized))),
                ''clustering_attempted'' \<mapsto> PyInt 1))
             (home_period localized) = Inr (d, ev)"
    unfolding dbscan_unfold[OF assms(1,2)] using assms(3) by simp
  from dbscan_cluster_debug_info[OF this] assms(4)
  have counters:
    "d ''n_dbscan_core_tweets'' = Some (PyInt (int (count_list (map row_type results) ''core'')))"
    "d ''n_dbscan_boundary_tweets''
       = Some (PyInt (int (count_list (map row_type results) ''boundary'')))"
    "d ''n_dbscan_noise_tweets'' = Some (PyInt (int (count_list (map row_type results) ''noise'')))"
    by auto
  have "\<forall>x \<in> set (map row_type results). x = ''core'' \<or> x = ''boundary'' \<or> x = ''noise''"
    using assms(6) by (auto simp: DBSCAN_CLUSTER_TYPES_def)
  then have "count_list (map row_type results) ''core''
           + count_list (map row_type results) ''boundary''
           + count_list (map row_type results) ''noise'' = length (map row_type results)"
    by (rule count_list_three) simp_all
  with counters assms(5) show ?thesis
    by (simp add: count_list_map_filter)
qed

theorem dbscan_type_counters_sum_witness:
  "returned (dbscan example_ext monday_user) ''n_dbscan_core_tweets'' = Some (PyInt 0)
    \<and> returned (dbscan example_ext monday_user) ''n_dbscan_boundary_tweets'' = Some (PyInt 0)
    \<and> returned (dbscan example_ext monday_user) ''n_dbscan_noise_tweets'' = Some (PyInt 2)
    \<and> effects (dbscan example_ext monday_user)
        = Some [Dbscan_create [(-71.06, 42.36), (-71.05, 42.37)]]"
proof -
  have ne: "monday_user \<noteq> []" by (simp add: monday_user_def)
  have hp: "home_period
      [with_dt (example_tweet ''Tue Jan 06 03:00:00 +0000 1970'' (-71.06) 42.36)
               \<lparr>wall_seconds = 424800, utcoffset = Some (- 18000)\<rparr>,
       with_dt (example_tweet ''Wed Jan 07 03:00:00 +0000 1970'' (-71.05) 42.37)
               \<lparr>wall_seconds = 511200, utcoffset = Some (- 18000)\<rparr>] \<noteq> []"
    by (simp only: home_period_monday_user) simp
  have cl: "turicreate_dbscan_create example_ext
      (map (\<lambda>r. (LON_COLUMN r, LAT_COLUMN r)) (home_period
        [with_dt (example_tweet ''Tue Jan 06 03:00:00 +0000 1970'' (-71.06) 42.36)
                 \<lparr>wall_seconds = 424800, utcoffset = Some (- 18000)\<rparr>,
         with_dt (example_tweet ''Wed Jan 07 03:00:00 +0000 1970'' (-71.05) 42.37)
                 \<lparr>wall_seconds = 511200, utcoffset = Some (- 18000)\<rparr>]))
     = Inr [\<lparr>row_id = 0, row_cluster_id = None, row_type = ''noise''\<rparr>,
            \<lparr>row_id = 1, row_cluster_id = None, row_type = ''noise''\<rparr>]"
    by (simp only: home_period_monday_user clusterer_monday_user)
  have len: "length [\<lparr>row_id = 0, row_cluster_id = None, row_type = ''noise''\<rparr>,
                     \<lparr>row_id = 1, row_cluster_id = None, row_type = ''noise''\<rparr>]
       = length (home_period
          [with_dt (example_tweet ''Tue Jan 06 03:00:00 +0000 1970'' (-71.06) 42.36)
                   \<lparr>wall_seconds = 424800, utcoffset = Some (- 18000)\<rparr>,
           with_dt (example_tweet ''Wed Jan 07 03:00:00 +0000 1970'' (-71.05) 42.37)
                   \<lparr>wall_seconds = 511200, utcoffset = Some (- 18000)\<rparr>])"
    by (simp only: home_period_monday_user) simp
  have types: "\<forall>r \<in> set [\<lparr>row_id = 0, row_cluster_id = None, row_type = ''noise''\<rparr>,
                           \<lparr>row_id = 1, row_cluster_id = None, row_type = ''noise''\<rparr>].
                 row_type r \<in> set DBSCAN_CLUSTER_TYPES"
    by (simp add: DBSCAN_CLUSTER_TYPES_def)
  from dbscan_type_counters_sum
         [OF ne localize_monday_user hp cl len types dbscan_monday_user_returns]
  show ?thesis
    unfolding dbscan_monday_user_returns by (simp add: returned_def effects_def)
qed

text \<open>
  C10. For a non-empty frame whose timestamps all parse: when the home-period subset is
  empty, \<open>dbscan\<close> returns a dict with \<open>clustering_attempted = 0\<close> and the three
  \<open>n_dbscan\<close> counters \<open>None\<close>; and in whatever dict \<open>dbscan\<close> returns,
  \<open>clustering_attempted\<close> is 1 exactly when some record survived the home-period
  filter.
\<close>

theorem clustering_attempted_iff_home_period:
  assumes "tweets_df \<noteq> []"
    and "localize_datetimes ext Map.empty (groupby_first tweets_df) = Inr localized"
  shows "(home_period localized = [] \<longrightarrow>
            returned (dbscan ext tweets_df) ''clustering_attempted'' = Some (PyInt 0)
          \<and> returned (dbscan ext tweets_df) ''n_dbscan_core_tweets'' = Some PyNone
          \<and> returned (dbscan ext tweets_df) ''n_dbscan_boundary_tweets'' = Some PyNone
          \<and> returned (dbscan ext tweets_df) ''n_dbscan_noise_tweets'' = Some PyNone)
    \<and> ((\<exists>d ev. dbscan ext tweets_df = Inr (d, ev)) \<longrightarrow>
          (returned (dbscan ext tweets_df) ''clustering_attempted'' = Some (PyInt 1)
             \<longleftrightarrow> home_period localized \<noteq> []))"
proof (cases "home_period localized = []")
  case True
  then show ?thesis
    unfolding dbscan_unfold[OF assms]
    by (simp add: returned_def add_home_decision_other initial_debug_info_apply)
next
  case False
  have "returned (dbscan ext tweets_df) ''clustering_attempted'' = Some (PyInt 1)"
    if "dbscan ext tweets_df = Inr (d, ev)" for d ev
  proof -
    from that False have "dbscan_cluster ext (user_id (hd tweets_df))
             (initial_debug_info(''n_burst_tweets'' \<mapsto> PyInt (n_burst_tweets tweets_df),
                ''n_home_period_tweets'' \<mapsto> PyInt (int (length (home_period localized))),
                ''clustering_attempted'' \<mapsto> PyInt 1))
             (home_period localized) = Inr (d, ev)"
      unfolding dbscan_unfold[OF assms] by simp
    from dbscan_cluster_debug_info[OF this] have "d ''clustering_attempted'' = Some (PyInt 1)"
      by auto
    with that show ?thesis by (simp add: returned_def)
  qed
  with False show ?thesis by blast
qed

theorem clustering_attempted_iff_home_period_witness:
  "returned (dbscan example_ext friday_user) ''clustering_attempted'' = Some (PyInt 0)
    \<and> returned (dbscan example_ext friday_user) ''n_dbscan_core_tweets'' = Some PyNone
    \<and> returned (dbscan example_ext friday_user) ''n_dbscan_boundary_tweets'' = Some PyNone
    \<and> returned (dbscan example_ext friday_user) ''n_dbscan_noise_tweets'' = Some PyNone
    \<and> returned (dbscan example_ext monday_user) ''clustering_attempted'' = Some (PyInt 1)"
proof -
  have f: "friday_user \<noteq> []" by (simp add: friday_user_def)
  have m: "monday_user \<noteq> []" by (simp add: monday_user_def)
  have hp: "home_period
      [with_dt (example_tweet ''Tue Jan 06 03:00:00 +0000 1970'' (-71.06) 42.36)
               \<lparr>wall_seconds = 424800, utcoffset = Some (- 18000)\<rparr>,
       with_dt (example_tweet ''Wed Jan 07 03:00:00 +0000 1970'' (-71.05) 42.37)
               \<lparr>wall_seconds = 511200, utcoffset = Some (- 18000)\<rparr>] \<noteq> []"
    by (simp only: home_period_monday_user) simp
  from clustering_attempted_iff_home_period[OF f localize_friday_user]
    clustering_attempted_iff_home_period[OF m localize_monday_user]
    home_period_friday_user hp dbscan_monday_user_returns
  show ?thesis by blast
qed








section \<open>Properties of run\_all\_measures\<close>

lemma run_measures_from_returns:
  assumes "\<forall>m \<in> set measure_fns. \<exists>rv. measure_call m df = Inr rv"
  shows "\<exists>results. run_measures_from acc df measure_fns = Inr results"
  using assms
proof (induction measure_fns arbitrary: acc)
  case Nil
  then show ?case by simp
next
  case (Cons m ms)
  then obtain rv where "measure_call m df = Inr rv" by auto
  with Cons show ?case by simp
qed

lemma run_measures_from_untouched:
  assumes "run_measures_from acc df measure_fns = Inr results"
    and "\<forall>m \<in> set measure_fns. \<forall>rv. measure_call m df = Inr rv \<longrightarrow> as_dict m rv k = None"
  shows "results k = acc k"
  using assms
proof (induction measure_fns arbitrary: acc)
  case Nil
  then show ?case by simp
next
  case (Cons m ms)
  from Cons.prems(1) obtain rv where rv: "measure_call m df = Inr rv"
    and rest: "run_measures_from (acc ++ as_dict m rv) df ms = Inr results"
    by (auto split: sum.splits)
  from Cons.prems(2) rv have "as_dict m rv k = None" by simp
  moreover from Cons.IH[OF rest] Cons.prems(2) have "results k = (acc ++ as_dict m rv) k"
    by simp
  ultimately show ?case by (simp add: map_add_def)
qed

lemma run_measures_from_split:
  assumes "run_measures_from acc df (ms1 @ m # ms2) = Inr results"
  shows "\<exists>acc' rv. measure_call m df = Inr rv
           \<and> run_measures_from (acc' ++ as_dict m rv) df ms2 = Inr results"
  using assms
proof (induction ms1 arbitrary: acc)
  case Nil
  then show ?case by (auto split: sum.splits)
next
  case (Cons a ms1)
  then show ?case by (auto split: sum.splits)
qed

text \<open>
  C9, as the code has it. Merging is last-writer-wins and raises nothing of its own:
  \<open>run_all_measures\<close> returns whenever every measure returns, and under a key that
  several measures produce the returned record holds the value of the last measure, in
  list order, that produced it.
\<close>

theorem run_all_measures_last_writer_wins:
  "((\<forall>m \<in> set measure_fns. \<exists>rv. measure_call m df = Inr rv)
      \<longrightarrow> (\<exists>results. run_all_measures df measure_fns = Inr results))
   \<and> (\<forall>ms1 m ms2 rv v results.
         measure_fns = ms1 @ m # ms2
         \<and> run_all_measures df measure_fns = Inr results
         \<and> measure_call m df = Inr rv \<and> as_dict m rv k = Some v
         \<and> (\<forall>m' \<in> set ms2. \<forall>rv'. measure_call m' df = Inr rv' \<longrightarrow> as_dict m' rv' k = None)
         \<longrightarrow> results k = Some v)"
proof (intro conjI allI impI)
  assume "\<forall>m \<in> set measure_fns. \<exists>rv. measure_call m df = Inr rv"
  then show "\<exists>results. run_all_measures df measure_fns = Inr results"
    unfolding run_all_measures_def by (rule run_measures_from_returns)
next
  fix ms1 m ms2 rv v results
  assume a: "measure_fns = ms1 @ m # ms2
         \<and> run_all_measures df measure_fns = Inr results
         \<and> measure_call m df = Inr rv \<and> as_dict m rv k = Some v
         \<and> (\<forall>m' \<in> set ms2. \<forall>rv'. measure_call m' df = Inr rv' \<longrightarrow> as_dict m' rv' k = None)"
  then have "run_measures_from Map.empty df (ms1 @ m # ms2) = Inr results"
    unfolding run_all_measures_def by blast
  from run_measures_from_split[OF this] a obtain acc' where
    rest: "run_measures_from (acc' ++ as_dict m rv) df ms2 = Inr results" by auto
  from a have "\<forall>m' \<in> set ms2. \<forall>rv'. measure_call m' df = Inr rv' \<longrightarrow> as_dict m' rv' k = None"
    by simp
  from run_measures_from_untouched[OF rest this] a show "results k = Some v"
    by (simp add: map_add_def)
qed

text \<open>The theorem at \<open>n_tweets\<close> followed by the colliding measure, on the one-tweet
  user: the record returned holds the later value 0 under \<open>n_tweets\<close>.\<close>

theorem run_all_measures_last_writer_wins_witness:
  "run_all_measures friday_user [n_tweets, colliding_measure] = Inr [''n_tweets'' \<mapsto> PyInt 0]
   \<and> measure_call colliding_measure friday_user = Inr (Dict [''n_tweets'' \<mapsto> PyInt 0])
   \<and> [''n_tweets'' \<mapsto> PyInt 0] ''n_tweets'' = Some (PyInt 0)"
  using run_all_measures_last_writer_wins
    [of "[n_tweets, colliding_measure]" friday_user "''n_tweets''"]
  by (simp add: run_all_measures_def n_tweets_def colliding_measure_def as_dict_def)

text \<open>
  C9 as stated fails: \<open>n_tweets\<close> files 1 under the key \<open>n_tweets\<close>, the colliding
  measure then files 0 under the same key, and \<open>run_all_measures\<close> returns normally with
  0 under it: the earlier value is overwritten and no error is raised.
\<close>

theorem run_all_measures_overwrites_silently:
  "measure_call n_tweets friday_user = Inr (Scalar (PyInt 1))
   \<and> measure_call colliding_measure friday_user = Inr (Dict [''n_tweets'' \<mapsto> PyInt 0])
   \<and> run_all_measures friday_user [n_tweets, colliding_measure]
       = Inr [''n_tweets'' \<mapsto> PyInt 0]"
  by (simp add: run_all_measures_def n_tweets_def colliding_measure_def as_dict_def
      friday_user_def)

end
